theory Spec2Isabelle
  imports Complex_Main
begin

section \<open>Question records and answer records\<close>

text \<open>
  A question is a JavaScript object read from a JSON data file. The two application files
  read its correct answer under different property names: \<^verbatim>\<open>q.answer\<close> in
  \<^verbatim>\<open>quiz-app/src/App.jsx\<close> (the multi-category application) and
  \<^verbatim>\<open>q.correctAnswer\<close> in the single-category application. Reading a property that
  the object does not have yields \<^verbatim>\<open>undefined\<close>; this is \<open>None\<close> below.
\<close>

record quiz_question =
  question :: string
  options :: "string list"
  answer :: "string option"
  correctAnswer :: "string option"

text \<open>
  \<^verbatim>\<open>userAnswers\<close> is an object whose property keys are question indices (the
  handlers write \<^verbatim>\<open>[currentQuestion]\<close> and read \<^verbatim>\<open>[index]\<close>, and a number
  used as a key is turned into its decimal string, one string per integer). A missing
  property reads as \<^verbatim>\<open>undefined\<close> (\<open>None\<close>).
\<close>

type_synonym answers = "int \<rightharpoonup> string"

section \<open>Scoring\<close>

text \<open>
  \<^verbatim>\<open>
  const calculateScore = () => {
    let correct = 0
    questions.forEach((q, index) => {
      if (userAnswers[index] === q.answer) {
        correct++
      }
    })
    return correct
  }
  \<close>
  The \<^verbatim>\<open>forEach\<close> loop is a recursion over the question list that carries the index
  and the counter. Strict equality of two values that are each a string or
  \<^verbatim>\<open>undefined\<close> is equality of \<open>string option\<close>: in particular
  \<^verbatim>\<open>undefined === undefined\<close> holds.
\<close>

fun forEach_count ::
  "(quiz_question \<Rightarrow> string option) \<Rightarrow> answers \<Rightarrow> quiz_question list \<Rightarrow> int \<Rightarrow> nat \<Rightarrow> nat" where
  "forEach_count field ua [] index correct = correct"
| "forEach_count field ua (q # qs) index correct =
     forEach_count field ua qs (index + 1) (if ua index = field q then correct + 1 else correct)"

definition calculateScore :: "quiz_question list \<Rightarrow> answers \<Rightarrow> nat" where
  "calculateScore questions ua = forEach_count answer ua questions 0 0"

text \<open>The single-category application compares with \<^verbatim>\<open>q.correctAnswer\<close> instead.\<close>

definition calculateScore_single :: "quiz_question list \<Rightarrow> answers \<Rightarrow> nat" where
  "calculateScore_single questions ua = forEach_count correctAnswer ua questions 0 0"

text \<open>
  \<^verbatim>\<open>
  const getPercentage = () => {
    return Math.round((calculateScore() / questions.length) * 100)
  }
  \<close>
  JavaScript numbers are IEEE 754 binary64 values: the quotient is rounded to the nearest
  binary64 value, and so is the product with 100. Both roundings are modelled exactly, on
  rationals. The integers involved (a score, a list length, 100) are far below \<open>2 ^ 53\<close>
  and are represented exactly.
\<close>

function bit_length :: "int \<Rightarrow> nat" where
  "bit_length a = (if a \<le> 0 then 0 else Suc (bit_length (a div 2)))"
  by pat_completeness auto
termination
  by (relation "measure nat") auto

declare bit_length.simps [simp del]

text \<open>
  \<open>floor_log2 q\<close> is the binary exponent \<open>e\<close> of a positive rational:
  \<open>2 ^ e \<le> q < 2 ^ (e + 1)\<close>. With \<open>q = a / b\<close>, the difference of the bit lengths of
  \<open>a\<close> and \<open>b\<close> is either \<open>e\<close> or \<open>e + 1\<close>.
\<close>

definition floor_log2 :: "rat \<Rightarrow> int" where
  "floor_log2 q =
     (let (a, b) = quotient_of q;
          e = int (bit_length a) - int (bit_length b)
      in if 2 powi e \<le> q then e else e - 1)"

definition round_half_even :: "rat \<Rightarrow> int" where
  "round_half_even x =
     (let f = \<lfloor>x\<rfloor>; r = x - of_int f
      in if r < 1 / 2 then f
         else if 1 / 2 < r then f + 1
         else if even f then f else f + 1)"

text \<open>
  \<open>fl64 q\<close> is the binary64 value nearest to \<open>q\<close>, ties to the even significand: the
  significand has 53 bits, so the unit in the last place of a number with binary exponent
  \<open>e\<close> is \<open>2 ^ (e - 52)\<close>. Overflow and subnormal numbers do not occur for the values
  computed here (quotients \<open>score / length\<close> and their products with 100, for lists of
  fewer than \<open>2 ^ 1022\<close> questions).
\<close>

definition fl64 :: "rat \<Rightarrow> rat" where
  "fl64 q =
     (if q = 0 then 0
      else let u = 2 powi (floor_log2 \<bar>q\<bar> - 52)
           in of_int (round_half_even (q / u)) * u)"

text \<open>\<^verbatim>\<open>Math.round\<close> returns the nearest integer, a tie going towards \<open>+\<infinity>\<close>.\<close>

definition Math_round :: "rat \<Rightarrow> int" where
  "Math_round x = \<lfloor>x + 1 / 2\<rfloor>"

text \<open>
  The result of \<^verbatim>\<open>getPercentage\<close> is an integer, except when the question list is
  empty: then \<^verbatim>\<open>0 / 0\<close> is \<^verbatim>\<open>NaN\<close> (and a positive score over
  length 0 would be \<^verbatim>\<open>Infinity\<close>), and \<^verbatim>\<open>Math.round\<close> returns its argument.
\<close>

datatype js_number = NaN | Infinity | Num int

definition percentage_of :: "nat \<Rightarrow> nat \<Rightarrow> js_number" where
  "percentage_of score len =
     (if len = 0 then (if score = 0 then NaN else Infinity)
      else Num (Math_round (fl64 (fl64 (of_nat score / of_nat len) * 100))))"

definition getPercentage :: "quiz_question list \<Rightarrow> answers \<Rightarrow> js_number" where
  "getPercentage questions ua = percentage_of (calculateScore questions ua) (length questions)"

definition getPercentage_single :: "quiz_question list \<Rightarrow> answers \<Rightarrow> js_number" where
  "getPercentage_single questions ua =
     percentage_of (calculateScore_single questions ua) (length questions)"

text \<open>
  The results screen (the same text in both files):
  \<^verbatim>\<open>
  let gradeClass = 'grade-low'
  if (percentage >= 80) {
    gradeClass = 'grade-excellent'
  } else if (percentage >= 60) {
    gradeClass = 'grade-good'
  } else if (percentage >= 40) {
    gradeClass = 'grade-average'
  }
  \<close>
  Every comparison with \<^verbatim>\<open>NaN\<close> is false.
\<close>

fun js_ge :: "js_number \<Rightarrow> int \<Rightarrow> bool" where
  "js_ge NaN k = False"
| "js_ge Infinity k = True"
| "js_ge (Num p) k = (k \<le> p)"

definition gradeClass :: "js_number \<Rightarrow> string" where
  "gradeClass percentage =
     (if js_ge percentage 80 then ''grade-excellent''
      else if js_ge percentage 60 then ''grade-good''
      else if js_ge percentage 40 then ''grade-average''
      else ''grade-low'')"

text \<open>The rounding the specification describes: exact quotient, half-up.\<close>

definition half_up_percentage :: "nat \<Rightarrow> nat \<Rightarrow> int" where
  "half_up_percentage score len = \<lfloor>(of_nat score / of_nat len * 100 :: rat) + 1 / 2\<rfloor>"

text \<open>
  The exact percentage lies halfway between two integers: \<open>100 * score / len + 1 / 2\<close>,
  that is \<open>(200 * score + len) / (2 * len)\<close>, is an integer.
\<close>

definition halfway :: "nat \<Rightarrow> nat \<Rightarrow> bool" where
  "halfway score len \<longleftrightarrow> (200 * score + len) mod (2 * len) = 0"

section \<open>Application state and intents\<close>

text \<open>
  The React state of the component. The single-category application has the fields of
  \<open>quiz\<close>; the multi-category application adds \<^verbatim>\<open>selectedCategory\<close>.
  \<^verbatim>\<open>selectedOption\<close> and \<^verbatim>\<open>selectedCategory\<close> are a string or
  \<^verbatim>\<open>null\<close> (\<open>None\<close>).
\<close>

record quiz =
  screen :: string
  currentQuestion :: int
  userAnswers :: answers
  selectedOption :: "string option"
  isTransitioning :: bool

record app = quiz +
  selectedCategory :: "string option"

definition HOME :: string where "HOME = ''home''"
definition QUIZ :: string where "QUIZ = ''quiz''"
definition RESULTS :: string where "RESULTS = ''results''"

definition initial :: app where
  "initial = \<lparr>screen = HOME, currentQuestion = 0, userAnswers = Map.empty,
     selectedOption = None, isTransitioning = False, selectedCategory = None\<rparr>"

definition initial_single :: quiz where
  "initial_single = \<lparr>screen = HOME, currentQuestion = 0, userAnswers = Map.empty,
     selectedOption = None, isTransitioning = False\<rparr>"

text \<open>
  \<^verbatim>\<open>x || null\<close> for \<open>x\<close> a string or \<^verbatim>\<open>undefined\<close>: the empty string is
  falsy, like \<^verbatim>\<open>undefined\<close>.
\<close>

definition or_null :: "string option \<Rightarrow> string option" where
  "or_null x = (case x of None \<Rightarrow> None | Some v \<Rightarrow> if v = [] then None else Some v)"

text \<open>
  Each handler below is the handler of the source with its \<^verbatim>\<open>setTimeout\<close> callback
  run to completion: the callback uses the values the handler closed over
  (\<^verbatim>\<open>currentQuestion\<close>, \<^verbatim>\<open>userAnswers\<close>, \<^verbatim>\<open>newAnswers\<close>), not the updated
  state. The handlers \<^verbatim>\<open>selectOption\<close>, \<^verbatim>\<open>nextQuestion\<close>,
  \<^verbatim>\<open>prevQuestion\<close> and \<^verbatim>\<open>finishQuiz\<close> have the same text in both files.
\<close>

definition selectOption :: "string \<Rightarrow> 'a quiz_scheme \<Rightarrow> 'a quiz_scheme" where
  "selectOption option s = s\<lparr>selectedOption := Some option\<rparr>"

text \<open>
  \<^verbatim>\<open>
  const nextQuestion = () => {
    if (selectedOption === null) return
    setIsTransitioning(true)
    const newAnswers = { ...userAnswers, [currentQuestion]: selectedOption }
    setUserAnswers(newAnswers)
    setTimeout(() => {
      if (currentQuestion < questions.length - 1) {
        setCurrentQuestion(currentQuestion + 1)
        setSelectedOption(newAnswers[currentQuestion + 1] || null)
      }
      setIsTransitioning(false)
    }, 300)
  }
  \<close>
\<close>

definition nextQuestion :: "quiz_question list \<Rightarrow> 'a quiz_scheme \<Rightarrow> 'a quiz_scheme" where
  "nextQuestion questions s =
     (case selectedOption s of
        None \<Rightarrow> s
      | Some sel \<Rightarrow>
          let newAnswers = (userAnswers s)(currentQuestion s \<mapsto> sel);
              s1 = s\<lparr>isTransitioning := True, userAnswers := newAnswers\<rparr>;
              s2 = (if currentQuestion s < int (length questions) - 1
                    then s1\<lparr>currentQuestion := currentQuestion s + 1,
                           selectedOption := or_null (newAnswers (currentQuestion s + 1))\<rparr>
                    else s1)
          in s2\<lparr>isTransitioning := False\<rparr>)"

text \<open>
  \<^verbatim>\<open>
  const prevQuestion = () => {
    if (currentQuestion === 0) return
    setIsTransitioning(true)
    if (selectedOption !== null) {
      setUserAnswers({ ...userAnswers, [currentQuestion]: selectedOption })
    }
    setTimeout(() => {
      setCurrentQuestion(currentQuestion - 1)
      setSelectedOption(userAnswers[currentQuestion - 1] || null)
      setIsTransitioning(false)
    }, 300)
  }
  \<close>
\<close>

definition prevQuestion :: "'a quiz_scheme \<Rightarrow> 'a quiz_scheme" where
  "prevQuestion s =
     (if currentQuestion s = 0 then s
      else
        let s1 = s\<lparr>isTransitioning := True\<rparr>;
            s2 = (case selectedOption s of
                    None \<Rightarrow> s1
                  | Some sel \<Rightarrow> s1\<lparr>userAnswers := (userAnswers s)(currentQuestion s \<mapsto> sel)\<rparr>)
        in s2\<lparr>currentQuestion := currentQuestion s - 1,
              selectedOption := or_null (userAnswers s (currentQuestion s - 1)),
              isTransitioning := False\<rparr>)"

text \<open>
  \<^verbatim>\<open>
  const finishQuiz = () => {
    if (selectedOption === null) return
    setIsTransitioning(true)
    const newAnswers = { ...userAnswers, [currentQuestion]: selectedOption }
    setUserAnswers(newAnswers)
    setTimeout(() => {
      setScreen(SCREENS.RESULTS)
      setIsTransitioning(false)
    }, 300)
  }
  \<close>
\<close>

definition finishQuiz :: "'a quiz_scheme \<Rightarrow> 'a quiz_scheme" where
  "finishQuiz s =
     (case selectedOption s of
        None \<Rightarrow> s
      | Some sel \<Rightarrow>
          s\<lparr>userAnswers := (userAnswers s)(currentQuestion s \<mapsto> sel),
            screen := RESULTS, isTransitioning := False\<rparr>)"

text \<open>
  The remaining handlers of the multi-category application; both only set
  \<^verbatim>\<open>isTransitioning\<close> before their timeout.
  \<^verbatim>\<open>
  const restartQuiz = () => { ...
      setScreen(SCREENS.QUIZ)
      setCurrentQuestion(0)
      setUserAnswers({})
      setSelectedOption(null)
      setIsTransitioning(false) ... }
  const goToHome = () => { ...
      setScreen(SCREENS.HOME)
      setSelectedCategory(null)
      setCurrentQuestion(0)
      setUserAnswers({})
      setSelectedOption(null)
      setIsTransitioning(false) ... }
  \<close>
\<close>

definition restartQuiz :: "app \<Rightarrow> app" where
  "restartQuiz s = s\<lparr>screen := QUIZ, currentQuestion := 0, userAnswers := Map.empty,
     selectedOption := None, isTransitioning := False\<rparr>"

definition goToHome :: "app \<Rightarrow> app" where
  "goToHome s = s\<lparr>screen := HOME, selectedCategory := None, currentQuestion := 0,
     userAnswers := Map.empty, selectedOption := None, isTransitioning := False\<rparr>"

section \<open>The persisted document\<close>

text \<open>
  A property of a parsed JSON object is absent (reading it yields \<^verbatim>\<open>undefined\<close>), or
  \<^verbatim>\<open>null\<close>, or a value. The model covers the documents whose values, where present,
  have the types the application itself writes: strings for \<^verbatim>\<open>screen\<close>,
  \<^verbatim>\<open>selectedCategory\<close> and \<^verbatim>\<open>selectedOption\<close>, an integer for
  \<^verbatim>\<open>currentQuestion\<close>, objects for the view, an entry and the answers. The value of
  \<^verbatim>\<open>categories\<close>, which the save effect reads and writes into, is modelled in full:
  a plain object (a table of entries), an array, or a number, string or boolean, which
  is truthy or falsy.
\<close>

datatype 'a field = Missing | Null | Val 'a

record category_doc =
  cat_currentQuestion :: "int field"
  cat_userAnswers :: "answers field"
  cat_selectedOption :: "string field"

record view_doc =
  view_screen :: "string field"
  view_selectedCategory :: "string field"

datatype categories_value =
  Table "string \<Rightarrow> category_doc field" | Elements | Primitive bool

record document =
  doc_currentView :: "view_doc field"
  doc_categories :: "categories_value field"

text \<open>
  \<^verbatim>\<open>categories[key]\<close> for a category key. Category keys are names, as the keys
  \<^verbatim>\<open>PART1\<close> and \<^verbatim>\<open>PART2\<close> of the code's table are: an array, a number, a string
  or a boolean has no property of such a name.
\<close>

fun entry :: "categories_value \<Rightarrow> string \<Rightarrow> category_doc field" where
  "entry (Table t) key = t key"
| "entry Elements key = Missing"
| "entry (Primitive truthy) key = Missing"

text \<open>The single-category application stores one flat object.\<close>

record flat_document =
  flat_screen :: "string field"
  flat_currentQuestion :: "int field"
  flat_userAnswers :: "answers field"
  flat_selectedOption :: "string field"

text \<open>
  What \<^verbatim>\<open>JSON.parse\<close> makes of the stored string: it throws, or returns
  \<^verbatim>\<open>null\<close>, a number, string or boolean, an array, or an object. What
  \<^verbatim>\<open>localStorage.getItem\<close> returns: \<^verbatim>\<open>null\<close> (\<open>None\<close>), the empty
  string (falsy, so never parsed), or a non-empty string. Writing
  \<^verbatim>\<open>JSON.stringify (x)\<close> and parsing it later gives \<open>x\<close> back for the values of the
  model, so the store holds the parsed value.
\<close>

datatype 'd parsed = PNull | PPrimitive | PArray | PObject 'd

datatype 'd stored = EmptyString | Unparseable | Parsed "'d parsed"

type_synonym 'd store = "'d stored option"

datatype js_error = SyntaxError | TypeError

fun JSON_parse :: "'d stored \<Rightarrow> js_error + 'd parsed" where
  "JSON_parse (Parsed v) = Inr v"
| "JSON_parse Unparseable = Inl SyntaxError"
| "JSON_parse EmptyString = Inl SyntaxError"

text \<open>The test \<^verbatim>\<open>if (savedState)\<close> on what \<^verbatim>\<open>getItem\<close> returned.\<close>

fun truthy_item :: "'d store \<Rightarrow> bool" where
  "truthy_item None = False"
| "truthy_item (Some EmptyString) = False"
| "truthy_item (Some Unparseable) = True"
| "truthy_item (Some (Parsed v)) = True"

text \<open>
  Optional chaining \<^verbatim>\<open>x?.p\<close> and the defaults \<^verbatim>\<open>x || d\<close>: a string is
  truthy unless empty, a number unless 0, an object always.
\<close>

fun chain :: "'a field \<Rightarrow> ('a \<Rightarrow> 'b field) \<Rightarrow> 'b field" where
  "chain (Val v) p = p v"
| "chain Null p = Missing"
| "chain Missing p = Missing"

fun or_text :: "string field \<Rightarrow> string \<Rightarrow> string" where
  "or_text (Val v) d = (if v = [] then d else v)"
| "or_text Null d = d"
| "or_text Missing d = d"

fun or_number :: "int field \<Rightarrow> int \<Rightarrow> int" where
  "or_number (Val v) d = (if v = 0 then d else v)"
| "or_number Null d = d"
| "or_number Missing d = d"

fun or_object :: "'a field \<Rightarrow> 'a \<Rightarrow> 'a" where
  "or_object (Val v) d = v"
| "or_object Null d = d"
| "or_object Missing d = d"

fun or_null_field :: "string field \<Rightarrow> string option" where
  "or_null_field (Val v) = (if v = [] then None else Some v)"
| "or_null_field Null = None"
| "or_null_field Missing = None"

fun nullable :: "string option \<Rightarrow> string field" where
  "nullable None = Null"
| "nullable (Some v) = Val v"

text \<open>
  \<^verbatim>\<open>
  const savedState = localStorage.getItem(STORAGE_KEY)
  if (savedState) {
    try {
      const parsed = JSON.parse(savedState)
      setScreen(parsed.currentView?.screen || SCREENS.HOME)
      const savedCategory = parsed.currentView?.selectedCategory || null
      setSelectedCategory(savedCategory)
      if (savedCategory && parsed.categories?.[savedCategory]) {
        const categoryState = parsed.categories[savedCategory]
        setCurrentQuestion(categoryState.currentQuestion || 0)
        setUserAnswers(categoryState.userAnswers || {})
        setSelectedOption(categoryState.selectedOption || null)
      }
    } catch (e) {
      console.error('Failed to parse saved state:', e)
    }
  }
  \<close>
  The effect runs once, on the initial state. \<open>load_try\<close> is the body of the
  \<^verbatim>\<open>try\<close> block: \<^verbatim>\<open>JSON.parse\<close> may throw, and
  \<^verbatim>\<open>parsed.currentView\<close> throws when \<open>parsed\<close> is \<^verbatim>\<open>null\<close>; both happen
  before any setter is called. A number, string, boolean or array has no property
  \<^verbatim>\<open>currentView\<close> or \<^verbatim>\<open>categories\<close>. The \<^verbatim>\<open>catch\<close> block logs and
  leaves the state as it is.
\<close>

definition load_document :: "document \<Rightarrow> app \<Rightarrow> app" where
  "load_document parsed s =
     (let s1 = s\<lparr>screen := or_text (chain (doc_currentView parsed) view_screen) HOME\<rparr>;
          savedCategory = or_null_field (chain (doc_currentView parsed) view_selectedCategory);
          s2 = s1\<lparr>selectedCategory := savedCategory\<rparr>
      in case savedCategory of
           None \<Rightarrow> s2
         | Some key \<Rightarrow>
             (case chain (doc_categories parsed) (\<lambda>categories. entry categories key) of
                Val categoryState \<Rightarrow>
                  s2\<lparr>currentQuestion := or_number (cat_currentQuestion categoryState) 0,
                     userAnswers := or_object (cat_userAnswers categoryState) Map.empty,
                     selectedOption := or_null_field (cat_selectedOption categoryState)\<rparr>
              | Null \<Rightarrow> s2
              | Missing \<Rightarrow> s2))"

definition no_properties :: document where
  "no_properties = \<lparr>doc_currentView = Missing, doc_categories = Missing\<rparr>"

definition load_try :: "document stored \<Rightarrow> app \<Rightarrow> js_error + app" where
  "load_try savedState s =
     (case JSON_parse savedState of
        Inl e \<Rightarrow> Inl e
      | Inr PNull \<Rightarrow> Inl TypeError
      | Inr PPrimitive \<Rightarrow> Inr (load_document no_properties s)
      | Inr PArray \<Rightarrow> Inr (load_document no_properties s)
      | Inr (PObject parsed) \<Rightarrow> Inr (load_document parsed s))"

definition load :: "document store \<Rightarrow> app" where
  "load st =
     (if truthy_item st
      then (case load_try (the st) initial of Inl e \<Rightarrow> initial | Inr s \<Rightarrow> s)
      else initial)"

text \<open>
  \<^verbatim>\<open>
  try {
    const existingSaved = localStorage.getItem(STORAGE_KEY)
    const existing = existingSaved ? JSON.parse(existingSaved) : { categories: {} }
    existing.currentView = { screen, selectedCategory }
    if (selectedCategory) {
      existing.categories = existing.categories || {}
      existing.categories[selectedCategory] = { currentQuestion, userAnswers, selectedOption }
    }
    localStorage.setItem(STORAGE_KEY, JSON.stringify(existing))
  } catch (e) {
    console.error('Failed to save state:', e)
  }
  \<close>
  The effect reads the stored document and updates it; \<open>save_try\<close> is the body of the
  \<^verbatim>\<open>try\<close> block. When the stored string does not parse, or parses to
  \<^verbatim>\<open>null\<close>, a number, a string or a boolean (assigning a property to these throws
  in module code, which is strict), the exception is caught and nothing is written. An
  array takes the assignments, but \<^verbatim>\<open>JSON.stringify\<close> writes only its elements, so
  the same array is stored again.

  The same holds one level down, for the stored \<^verbatim>\<open>categories\<close>:
  \<^verbatim>\<open>existing.categories || {}\<close> replaces an absent, \<^verbatim>\<open>null\<close> or falsy value by
  an empty table and keeps everything else; the assignment of the entry then updates a
  table, is lost on an array when the document is written, and throws on a truthy
  number, string or boolean.
\<close>

fun categories_or_fresh :: "categories_value field \<Rightarrow> categories_value" where
  "categories_or_fresh (Val (Table t)) = Table t"
| "categories_or_fresh (Val Elements) = Elements"
| "categories_or_fresh (Val (Primitive truthy)) =
     (if truthy then Primitive truthy else Table (\<lambda>k. Missing))"
| "categories_or_fresh Null = Table (\<lambda>k. Missing)"
| "categories_or_fresh Missing = Table (\<lambda>k. Missing)"

fun assign_entry :: "categories_value \<Rightarrow> string \<Rightarrow> category_doc \<Rightarrow> js_error + categories_value" where
  "assign_entry (Table t) key v = Inr (Table (t(key := Val v)))"
| "assign_entry Elements key v = Inr Elements"
| "assign_entry (Primitive truthy) key v = Inl TypeError"

definition save_document :: "app \<Rightarrow> document \<Rightarrow> js_error + document" where
  "save_document s existing =
     (let e1 = existing\<lparr>doc_currentView :=
                 Val \<lparr>view_screen = Val (screen s),
                      view_selectedCategory = nullable (selectedCategory s)\<rparr>\<rparr>
      in case or_null (selectedCategory s) of
           None \<Rightarrow> Inr e1
         | Some key \<Rightarrow>
             (case assign_entry (categories_or_fresh (doc_categories existing)) key
                     \<lparr>cat_currentQuestion = Val (currentQuestion s),
                      cat_userAnswers = Val (userAnswers s),
                      cat_selectedOption = nullable (selectedOption s)\<rparr> of
                Inl e \<Rightarrow> Inl e
              | Inr categories \<Rightarrow> Inr (e1\<lparr>doc_categories := Val categories\<rparr>)))"

definition fresh_document :: document where
  "fresh_document = \<lparr>doc_currentView = Missing, doc_categories = Val (Table (\<lambda>k. Missing))\<rparr>"

definition save_try :: "app \<Rightarrow> document store \<Rightarrow> js_error + document store" where
  "save_try s st =
     (case (if truthy_item st then JSON_parse (the st) else Inr (PObject fresh_document)) of
        Inl e \<Rightarrow> Inl e
      | Inr PNull \<Rightarrow> Inl TypeError
      | Inr PPrimitive \<Rightarrow> Inl TypeError
      | Inr PArray \<Rightarrow> Inr (Some (Parsed PArray))
      | Inr (PObject existing) \<Rightarrow>
          (case save_document s existing of
             Inl e \<Rightarrow> Inl e
           | Inr written \<Rightarrow> Inr (Some (Parsed (PObject written)))))"

definition save :: "app \<Rightarrow> document store \<Rightarrow> document store" where
  "save s st = (case save_try s st of Inl e \<Rightarrow> st | Inr st' \<Rightarrow> st')"

text \<open>
  \<^verbatim>\<open>
  const getSavedCategoryData = (categoryKey) => {
    try {
      const saved = localStorage.getItem(STORAGE_KEY)
      if (saved) {
        const parsed = JSON.parse(saved)
        return parsed.categories?.[categoryKey] || null
      }
    } catch (e) { ... }
    return null
  }
  \<close>
\<close>

definition getSavedCategoryData_try :: "string \<Rightarrow> document stored \<Rightarrow> js_error + category_doc option" where
  "getSavedCategoryData_try categoryKey saved =
     (case JSON_parse saved of
        Inl e \<Rightarrow> Inl e
      | Inr PNull \<Rightarrow> Inl TypeError
      | Inr PPrimitive \<Rightarrow> Inr None
      | Inr PArray \<Rightarrow> Inr None
      | Inr (PObject parsed) \<Rightarrow>
          (case chain (doc_categories parsed) (\<lambda>categories. entry categories categoryKey) of
             Val categoryState \<Rightarrow> Inr (Some categoryState)
           | Null \<Rightarrow> Inr None
           | Missing \<Rightarrow> Inr None))"

definition getSavedCategoryData :: "string \<Rightarrow> document store \<Rightarrow> category_doc option" where
  "getSavedCategoryData categoryKey st =
     (if truthy_item st
      then (case getSavedCategoryData_try categoryKey (the st) of Inl e \<Rightarrow> None | Inr r \<Rightarrow> r)
      else None)"

text \<open>
  \<^verbatim>\<open>
  const selectCategory = (categoryKey) => {
    setIsTransitioning(true)
    setTimeout(() => {
      const savedCategoryState = getSavedCategoryData(categoryKey)
      setSelectedCategory(categoryKey)
      setScreen(SCREENS.QUIZ)
      if (savedCategoryState) {
        setCurrentQuestion(savedCategoryState.currentQuestion || 0)
        setUserAnswers(savedCategoryState.userAnswers || {})
        setSelectedOption(savedCategoryState.selectedOption || null)
      } else {
        setCurrentQuestion(0)
        setUserAnswers({})
        setSelectedOption(null)
      }
      setIsTransitioning(false)
    }, 300)
  }
  \<close>
\<close>

definition selectCategory :: "string \<Rightarrow> document store \<Rightarrow> app \<Rightarrow> app" where
  "selectCategory categoryKey st s =
     (let s1 = s\<lparr>selectedCategory := Some categoryKey, screen := QUIZ\<rparr>;
          s2 = (case getSavedCategoryData categoryKey st of
                  Some savedCategoryState \<Rightarrow>
                    s1\<lparr>currentQuestion := or_number (cat_currentQuestion savedCategoryState) 0,
                       userAnswers := or_object (cat_userAnswers savedCategoryState) Map.empty,
                       selectedOption := or_null_field (cat_selectedOption savedCategoryState)\<rparr>
                | None \<Rightarrow>
                    s1\<lparr>currentQuestion := 0, userAnswers := Map.empty, selectedOption := None\<rparr>)
      in s2\<lparr>isTransitioning := False\<rparr>)"

text \<open>
  The single-category application:
  \<^verbatim>\<open>
  const parsed = JSON.parse(savedState)
  setScreen(parsed.screen || SCREENS.HOME)
  setCurrentQuestion(parsed.currentQuestion || 0)
  setUserAnswers(parsed.userAnswers || {})
  setSelectedOption(parsed.selectedOption || null)
  \<close>
  inside the same \<^verbatim>\<open>if (savedState) { try { ... } catch ... }\<close>, and
  \<^verbatim>\<open>
  const stateToSave = { screen, currentQuestion, userAnswers, selectedOption }
  localStorage.setItem(STORAGE_KEY, JSON.stringify(stateToSave))
  \<close>
\<close>

definition load_flat :: "flat_document \<Rightarrow> quiz \<Rightarrow> quiz" where
  "load_flat parsed s =
     s\<lparr>screen := or_text (flat_screen parsed) HOME,
       currentQuestion := or_number (flat_currentQuestion parsed) 0,
       userAnswers := or_object (flat_userAnswers parsed) Map.empty,
       selectedOption := or_null_field (flat_selectedOption parsed)\<rparr>"

definition no_flat_properties :: flat_document where
  "no_flat_properties = \<lparr>flat_screen = Missing, flat_currentQuestion = Missing,
     flat_userAnswers = Missing, flat_selectedOption = Missing\<rparr>"

definition load_single_try :: "flat_document stored \<Rightarrow> quiz \<Rightarrow> js_error + quiz" where
  "load_single_try savedState s =
     (case JSON_parse savedState of
        Inl e \<Rightarrow> Inl e
      | Inr PNull \<Rightarrow> Inl TypeError
      | Inr PPrimitive \<Rightarrow> Inr (load_flat no_flat_properties s)
      | Inr PArray \<Rightarrow> Inr (load_flat no_flat_properties s)
      | Inr (PObject parsed) \<Rightarrow> Inr (load_flat parsed s))"

definition load_single :: "flat_document store \<Rightarrow> quiz" where
  "load_single st =
     (if truthy_item st
      then (case load_single_try (the st) initial_single of Inl e \<Rightarrow> initial_single | Inr s \<Rightarrow> s)
      else initial_single)"

definition save_single :: "quiz \<Rightarrow> flat_document store" where
  "save_single s =
     Some (Parsed (PObject \<lparr>flat_screen = Val (screen s),
       flat_currentQuestion = Val (currentQuestion s),
       flat_userAnswers = Val (userAnswers s),
       flat_selectedOption = nullable (selectedOption s)\<rparr>))"

section \<open>Running intents\<close>

text \<open>
  \<^verbatim>\<open>CATEGORIES\<close> maps a category key to its questions; the question files are data,
  so the table is a parameter. The component computes
  \<^verbatim>\<open>
  const questions = selectedCategory ? CATEGORIES[selectedCategory].questions : []
  \<close>
  on every render; for a key that is not in the table this throws, and no handler can
  be called (\<open>None\<close>).
\<close>

type_synonym categories = "string \<rightharpoonup> quiz_question list"

definition questions_of :: "categories \<Rightarrow> app \<Rightarrow> quiz_question list option" where
  "questions_of CATEGORIES s =
     (case or_null (selectedCategory s) of None \<Rightarrow> Some [] | Some key \<Rightarrow> CATEGORIES key)"

datatype intent =
  SelectCategory string | SelectOption string | NextQuestion | PrevQuestion
  | FinishQuiz | RestartQuiz | GoToHome

text \<open>
  One intent: the handler runs on the rendered state, then the save effect writes the new
  state. A handler that sets state both before and inside its timeout makes the effect
  run twice; the category is the same both times, so the second write replaces the
  first. A handler that returns early sets no state and the effect does not run; writing
  the unchanged state once more leaves a store that already holds it as it is. Both are
  proved below (\<open>save_replaces\<close>).
\<close>

fun handle :: "quiz_question list \<Rightarrow> intent \<Rightarrow> document store \<Rightarrow> app \<Rightarrow> app" where
  "handle qs (SelectCategory key) st s = selectCategory key st s"
| "handle qs (SelectOption option) st s = selectOption option s"
| "handle qs NextQuestion st s = nextQuestion qs s"
| "handle qs PrevQuestion st s = prevQuestion s"
| "handle qs FinishQuiz st s = finishQuiz s"
| "handle qs RestartQuiz st s = restartQuiz s"
| "handle qs GoToHome st s = goToHome s"

definition apply_intent ::
  "categories \<Rightarrow> intent \<Rightarrow> app \<times> document store \<Rightarrow> (app \<times> document store) option" where
  "apply_intent CATEGORIES i c =
     (case questions_of CATEGORIES (fst c) of
        None \<Rightarrow> None
      | Some qs \<Rightarrow> (let s' = handle qs i (snd c) (fst c) in Some (s', save s' (snd c))))"

fun run ::
  "categories \<Rightarrow> intent list \<Rightarrow> app \<times> document store \<Rightarrow> (app \<times> document store) option" where
  "run CATEGORIES [] c = Some c"
| "run CATEGORIES (i # is) c =
     (case apply_intent CATEGORIES i c of None \<Rightarrow> None | Some c' \<Rightarrow> run CATEGORIES is c')"

text \<open>
  The home screen renders one button per entry of \<^verbatim>\<open>CATEGORIES\<close>, so
  \<^verbatim>\<open>selectCategory\<close> is offered for the keys of the table only.
\<close>

fun offered :: "categories \<Rightarrow> intent \<Rightarrow> bool" where
  "offered CATEGORIES (SelectCategory key) = (CATEGORIES key \<noteq> None)"
| "offered CATEGORIES i = True"

section \<open>The scoring the specification describes\<close>

text \<open>
  The specification asks for one internal correct-answer field, filled from whichever of
  the two spellings a record uses, and for scoring against that field.
\<close>

definition normalized_answer :: "quiz_question \<Rightarrow> string option" where
  "normalized_answer q = (case correctAnswer q of Some a \<Rightarrow> Some a | None \<Rightarrow> answer q)"

definition score_normalized :: "quiz_question list \<Rightarrow> answers \<Rightarrow> nat" where
  "score_normalized questions ua = forEach_count normalized_answer ua questions 0 0"

section \<open>Example data\<close>

text \<open>
  The scenario of the specification: three questions with correct answers A, B, C and a
  user who answers A, X, C. Each record carries both spellings of its correct answer.
\<close>

definition abc_question :: "string \<Rightarrow> quiz_question" where
  "abc_question a =
     \<lparr>question = ''Which one?'', options = [''A'', ''B'', ''C'', ''X''],
      answer = Some a, correctAnswer = Some a\<rparr>"

definition abc_questions :: "quiz_question list" where
  "abc_questions = [abc_question ''A'', abc_question ''B'', abc_question ''C'']"

definition axc_answers :: answers where
  "axc_answers = [0 \<mapsto> ''A'', 1 \<mapsto> ''X'', 2 \<mapsto> ''C'']"

text \<open>Forty questions, the first twenty-three of them answered correctly.\<close>

definition forty_questions :: "quiz_question list" where
  "forty_questions = replicate 40 (abc_question ''A'')"

definition twenty_three_right :: answers where
  "twenty_three_right = (\<lambda>i. if 0 \<le> i \<and> i < 23 then Some ''A'' else Some ''B'')"

text \<open>A record that spells its correct answer \<^verbatim>\<open>correctAnswer\<close> only.\<close>

definition legacy_question :: quiz_question where
  "legacy_question =
     \<lparr>question = ''Which one?'', options = [''A'', ''B''],
      answer = None, correctAnswer = Some ''A''\<rparr>"

text \<open>A record that spells it \<^verbatim>\<open>answer\<close> only.\<close>

definition plain_question :: quiz_question where
  "plain_question =
     \<lparr>question = ''Which one?'', options = [''A'', ''B''],
      answer = Some ''A'', correctAnswer = None\<rparr>"

text \<open>A question one of whose options is the empty string, after a plain one.\<close>

definition blank_question :: quiz_question where
  "blank_question =
     \<lparr>question = ''Fill the gap'', options = [[], ''B''],
      answer = Some ''B'', correctAnswer = None\<rparr>"

definition blank_categories :: categories where
  "blank_categories = [''PART1'' \<mapsto> [plain_question, blank_question],
                        ''PART2'' \<mapsto> [blank_question, plain_question]]"

text \<open>
  In category PART1: answer A, go on, choose the empty option, go back. The state this
  reaches has the empty string recorded for question 1.
\<close>

definition blank_ahead_trace :: "intent list" where
  "blank_ahead_trace =
     [SelectCategory ''PART1'', SelectOption ''A'', NextQuestion, SelectOption [], PrevQuestion]"

definition blank_ahead :: app where
  "blank_ahead =
     \<lparr>screen = QUIZ, currentQuestion = 0, userAnswers = [0 \<mapsto> ''A'', 1 \<mapsto> []],
      selectedOption = Some ''A'', isTransitioning = False, selectedCategory = Some ''PART1''\<rparr>"

text \<open>
  In category PART2: choose the empty option of question 0 and go on. The state this
  reaches has the empty string recorded for question 0.
\<close>

definition blank_behind_trace :: "intent list" where
  "blank_behind_trace = [SelectCategory ''PART2'', SelectOption [], NextQuestion]"

definition blank_behind :: app where
  "blank_behind =
     \<lparr>screen = QUIZ, currentQuestion = 1, userAnswers = [0 \<mapsto> []],
      selectedOption = None, isTransitioning = False, selectedCategory = Some ''PART2''\<rparr>"

text \<open>States of the three-question scenario: mid-quiz, nothing chosen, and at the end.\<close>

definition abc_first :: app where
  "abc_first =
     \<lparr>screen = QUIZ, currentQuestion = 0, userAnswers = [1 \<mapsto> ''X''],
      selectedOption = Some ''A'', isTransitioning = False, selectedCategory = Some ''PART1''\<rparr>"

definition abc_undecided :: app where
  "abc_undecided =
     \<lparr>screen = QUIZ, currentQuestion = 0, userAnswers = [1 \<mapsto> ''X''],
      selectedOption = None, isTransitioning = False, selectedCategory = Some ''PART1''\<rparr>"

definition abc_last :: app where
  "abc_last =
     \<lparr>screen = QUIZ, currentQuestion = 2, userAnswers = [0 \<mapsto> ''A'', 1 \<mapsto> ''X''],
      selectedOption = Some ''C'', isTransitioning = False, selectedCategory = Some ''PART1''\<rparr>"

section \<open>Stored values that read as a default\<close>

text \<open>
  The falsy values of JavaScript, among the values of the model: an absent property,
  \<^verbatim>\<open>null\<close>, the empty string, the number 0. An object is never falsy.
\<close>

fun falsy_text :: "string field \<Rightarrow> bool" where
  "falsy_text (Val v) = (v = [])"
| "falsy_text Null = True"
| "falsy_text Missing = True"

fun falsy_number :: "int field \<Rightarrow> bool" where
  "falsy_number (Val v) = (v = 0)"
| "falsy_number Null = True"
| "falsy_number Missing = True"

fun falsy_object :: "'a field \<Rightarrow> bool" where
  "falsy_object (Val v) = False"
| "falsy_object Null = True"
| "falsy_object Missing = True"

text \<open>
  The stores over which the save effect writes the state and its session: nothing
  stored, the empty string, or a stored object whose \<^verbatim>\<open>categories\<close> is absent,
  \<^verbatim>\<open>null\<close>, falsy or a plain object.
\<close>

fun takes_entry :: "categories_value field \<Rightarrow> bool" where
  "takes_entry (Val (Table t)) = True"
| "takes_entry (Val Elements) = False"
| "takes_entry (Val (Primitive truthy)) = (truthy = False)"
| "takes_entry Null = True"
| "takes_entry Missing = True"

fun accepts_save :: "document store \<Rightarrow> bool" where
  "accepts_save None = True"
| "accepts_save (Some EmptyString) = True"
| "accepts_save (Some (Parsed (PObject d))) = takes_entry (doc_categories d)"
| "accepts_save (Some Unparseable) = False"
| "accepts_save (Some (Parsed PNull)) = False"
| "accepts_save (Some (Parsed PPrimitive)) = False"
| "accepts_save (Some (Parsed PArray)) = False"

section \<open>Example states and documents\<close>

text \<open>In category PART2, the empty option of question 0 is selected.\<close>

definition blank_selected_trace :: "intent list" where
  "blank_selected_trace = [SelectCategory ''PART2'', SelectOption []]"

definition blank_selected :: app where
  "blank_selected =
     \<lparr>screen = QUIZ, currentQuestion = 0, userAnswers = Map.empty,
      selectedOption = Some [], isTransitioning = False, selectedCategory = Some ''PART2''\<rparr>"

definition blank_selected_single :: quiz where
  "blank_selected_single =
     \<lparr>screen = QUIZ, currentQuestion = 0, userAnswers = Map.empty,
      selectedOption = Some [], isTransitioning = False\<rparr>"

definition abc_first_single :: quiz where
  "abc_first_single =
     \<lparr>screen = QUIZ, currentQuestion = 0, userAnswers = [1 \<mapsto> ''X''],
      selectedOption = Some ''A'', isTransitioning = False\<rparr>"

text \<open>
  A partial document: no screen, and a category entry without answers. And a document
  whose stored values are all falsy.
\<close>

definition partial_document :: document where
  "partial_document =
     \<lparr>doc_currentView = Val \<lparr>view_screen = Missing, view_selectedCategory = Val ''PART1''\<rparr>,
      doc_categories = Val (Table ((\<lambda>k. Missing)
        (''PART1'' := Val \<lparr>cat_currentQuestion = Val 2, cat_userAnswers = Missing,
                             cat_selectedOption = Val ''B''\<rparr>)))\<rparr>"

definition falsy_document :: document where
  "falsy_document =
     \<lparr>doc_currentView = Val \<lparr>view_screen = Val [], view_selectedCategory = Val ''PART1''\<rparr>,
      doc_categories = Val (Table ((\<lambda>k. Missing)
        (''PART1'' := Val \<lparr>cat_currentQuestion = Null, cat_userAnswers = Null,
                             cat_selectedOption = Val []\<rparr>)))\<rparr>"

text \<open>
  Stored objects whose \<^verbatim>\<open>categories\<close> is an array
  (\<^verbatim>\<open>{"categories":[]}\<close>) and a non-empty string
  (\<^verbatim>\<open>{"categories":"x"}\<close>).
\<close>

definition array_document :: document where
  "array_document = \<lparr>doc_currentView = Missing, doc_categories = Val Elements\<rparr>"

definition string_document :: document where
  "string_document = \<lparr>doc_currentView = Missing, doc_categories = Val (Primitive True)\<rparr>"

definition partial_flat :: flat_document where
  "partial_flat =
     \<lparr>flat_screen = Val ''quiz'', flat_currentQuestion = Val 2, flat_userAnswers = Missing,
      flat_selectedOption = Missing\<rparr>"

definition falsy_flat :: flat_document where
  "falsy_flat =
     \<lparr>flat_screen = Val [], flat_currentQuestion = Val 0, flat_userAnswers = Null,
      flat_selectedOption = Val []\<rparr>"

text \<open>
  A visit to category PART1 that answers question 0, a visit to category PART2, and the
  return to PART1.
\<close>

definition visit_trace :: "intent list" where
  "visit_trace = [SelectCategory ''PART1'', SelectOption ''A'', NextQuestion, SelectOption ''B'']"

definition visited :: app where
  "visited =
     \<lparr>screen = QUIZ, currentQuestion = 1, userAnswers = [0 \<mapsto> ''A''],
      selectedOption = Some ''B'', isTransitioning = False, selectedCategory = Some ''PART1''\<rparr>"

definition elsewhere_trace :: "intent list" where
  "elsewhere_trace = [SelectCategory ''PART2'', SelectOption ''B'', NextQuestion, GoToHome]"

definition detour_trace :: "intent list" where
  "detour_trace = GoToHome # elsewhere_trace"

text \<open>The same detour from the state with the empty option selected in PART2.\<close>

definition blank_detour_trace :: "intent list" where
  "blank_detour_trace =
     blank_selected_trace @ [GoToHome, SelectCategory ''PART1'', GoToHome, SelectCategory ''PART2'']"

section \<open>The effects, case by case\<close>

lemma load_simps [simp]:
  "load None = initial"
  "load (Some EmptyString) = initial"
  "load (Some Unparseable) = initial"
  "load (Some (Parsed PNull)) = initial"
  "load (Some (Parsed PPrimitive)) = load_document no_properties initial"
  "load (Some (Parsed PArray)) = load_document no_properties initial"
  "load (Some (Parsed (PObject parsed))) = load_document parsed initial"
  by (simp_all add: load_def load_try_def)

lemma store_cases:
  fixes st :: "'d store"
  obtains "st = None" | "st = Some EmptyString" | d where "st = Some (Parsed (PObject d))"
  | "st = Some Unparseable" | "st = Some (Parsed PNull)" | "st = Some (Parsed PPrimitive)"
  | "st = Some (Parsed PArray)"
proof (cases st)
  case None
  then show ?thesis using that by simp
next
  case (Some x)
  show ?thesis
  proof (cases x)
    case EmptyString
    with Some show ?thesis using that by simp
  next
    case Unparseable
    with Some show ?thesis using that by simp
  next
    case (Parsed v)
    with Some show ?thesis using that by (cases v) simp_all
  qed
qed

lemma save_simps [simp]:
  "save s None =
     (case save_document s fresh_document of
        Inl e \<Rightarrow> None | Inr written \<Rightarrow> Some (Parsed (PObject written)))"
  "save s (Some EmptyString) =
     (case save_document s fresh_document of
        Inl e \<Rightarrow> Some EmptyString | Inr written \<Rightarrow> Some (Parsed (PObject written)))"
  "save s (Some Unparseable) = Some Unparseable"
  "save s (Some (Parsed PNull)) = Some (Parsed PNull)"
  "save s (Some (Parsed PPrimitive)) = Some (Parsed PPrimitive)"
  "save s (Some (Parsed PArray)) = Some (Parsed PArray)"
  "save s (Some (Parsed (PObject existing))) =
     (case save_document s existing of
        Inl e \<Rightarrow> Some (Parsed (PObject existing))
      | Inr written \<Rightarrow> Some (Parsed (PObject written)))"
  by (simp_all add: save_def save_try_def split: sum.splits)

text \<open>
  The entry is assigned unless \<^verbatim>\<open>categories\<close> is a truthy number, string or
  boolean; over a fresh document it always is.
\<close>

lemma save_document_cases:
  obtains written where "save_document s d = Inr written"
  | "save_document s d = Inl TypeError" "doc_categories d = Val (Primitive True)"
      "or_null (selectedCategory s) \<noteq> None"
proof (cases "or_null (selectedCategory s)")
  case None
  then show ?thesis using that(1) by (simp add: save_document_def Let_def)
next
  case (Some key)
  show ?thesis
  proof (cases "categories_or_fresh (doc_categories d)")
    case (Table t)
    with Some show ?thesis using that(1) by (simp add: save_document_def Let_def)
  next
    case Elements
    with Some show ?thesis using that(1) by (simp add: save_document_def Let_def)
  next
    case (Primitive truthy)
    then have "doc_categories d = Val (Primitive True)"
      by (cases "doc_categories d" rule: categories_or_fresh.cases) (auto split: if_splits)
    with Some Primitive show ?thesis using that(2) by (simp add: save_document_def Let_def)
  qed
qed

lemma save_fresh_document:
  obtains written where "save_document s fresh_document = Inr written"
  by (rule save_document_cases [of s fresh_document]) (simp_all add: fresh_document_def)

lemma getSavedCategoryData_simps [simp]:
  "getSavedCategoryData key None = None"
  "getSavedCategoryData key (Some EmptyString) = None"
  "getSavedCategoryData key (Some Unparseable) = None"
  "getSavedCategoryData key (Some (Parsed PNull)) = None"
  "getSavedCategoryData key (Some (Parsed PPrimitive)) = None"
  "getSavedCategoryData key (Some (Parsed PArray)) = None"
  "getSavedCategoryData key (Some (Parsed (PObject parsed))) =
     (case chain (doc_categories parsed) (\<lambda>categories. entry categories key) of
        Val categoryState \<Rightarrow> Some categoryState | Null \<Rightarrow> None | Missing \<Rightarrow> None)"
  by (simp_all add: getSavedCategoryData_def getSavedCategoryData_try_def split: field.splits)

lemma load_single_simps [simp]:
  "load_single None = initial_single"
  "load_single (Some EmptyString) = initial_single"
  "load_single (Some Unparseable) = initial_single"
  "load_single (Some (Parsed PNull)) = initial_single"
  "load_single (Some (Parsed PPrimitive)) = load_flat no_flat_properties initial_single"
  "load_single (Some (Parsed PArray)) = load_flat no_flat_properties initial_single"
  "load_single (Some (Parsed (PObject parsed))) = load_flat parsed initial_single"
  by (simp_all add: load_single_def load_single_try_def)

text \<open>A later write for the same selected category replaces an earlier one.\<close>

lemma save_document_replaces:
  assumes "selectedCategory s1 = selectedCategory s2" "save_document s1 d = Inr written"
  shows "save_document s2 written = save_document s2 d"
  using assms
  by (cases "doc_categories d" rule: categories_or_fresh.cases)
    (auto simp: save_document_def Let_def split: option.splits if_splits)

lemma save_document_throws:
  assumes "doc_categories d = Val (Primitive True)" "or_null (selectedCategory s) \<noteq> None"
  shows "save_document s d = Inl TypeError"
  using assms
  by (cases "or_null (selectedCategory s)") (simp_all add: save_document_def Let_def)

lemma save_replaces:
  assumes "selectedCategory s1 = selectedCategory s2"
  shows "save s2 (save s1 st) = save s2 st"
proof -
  have fresh: "save s2 (Some (Parsed (PObject written))) = Some (Parsed (PObject written2))"
    if "save_document s1 fresh_document = Inr written"
      and "save_document s2 fresh_document = Inr written2" for written written2
  proof -
    have r: "save_document s2 written = Inr written2"
      by (simp only: save_document_replaces [OF assms that(1)] that(2))
    show ?thesis by (simp add: r)
  qed
  show ?thesis
  proof (cases st rule: store_cases)
    case 1
    obtain written where w: "save_document s1 fresh_document = Inr written"
      by (rule save_fresh_document)
    obtain written2 where w2: "save_document s2 fresh_document = Inr written2"
      by (rule save_fresh_document)
    have a: "save s1 st = Some (Parsed (PObject written))"
      by (simp add: 1 w)
    have b: "save s2 st = Some (Parsed (PObject written2))"
      by (simp add: 1 w2)
    show ?thesis
      unfolding a b by (rule fresh [OF w w2])
  next
    case 2
    obtain written where w: "save_document s1 fresh_document = Inr written"
      by (rule save_fresh_document)
    obtain written2 where w2: "save_document s2 fresh_document = Inr written2"
      by (rule save_fresh_document)
    have a: "save s1 st = Some (Parsed (PObject written))"
      by (simp add: 2 w)
    have b: "save s2 st = Some (Parsed (PObject written2))"
      by (simp add: 2 w2)
    show ?thesis
      unfolding a b by (rule fresh [OF w w2])
  next
    case (3 d)
    show ?thesis
    proof (cases rule: save_document_cases [of s1 d])
      case (1 written)
      note w = 1
      show ?thesis
      proof (cases rule: save_document_cases [of s2 d])
        case (1 written2)
        have r: "save_document s2 written = Inr written2"
          by (simp only: save_document_replaces [OF assms w] 1)
        show ?thesis
          by (simp add: 3 w 1 r)
      next
        case 2
        then have "save_document s1 d = Inl TypeError"
          using assms by (intro save_document_throws) simp_all
        with w show ?thesis by simp
      qed
    next
      case 2
      then have "save_document s2 d = Inl TypeError"
        using assms by (intro save_document_throws) simp_all
      with 2 show ?thesis
        by (simp add: 3)
    qed
  qed simp_all
qed

section \<open>Properties of scoring\<close>

lemma forEach_count_card:
  "forEach_count field ua qs index correct =
     correct + card {i. i < length qs \<and> ua (index + int i) = field (qs ! i)}"
proof (induction qs arbitrary: index correct)
  case Nil
  then show ?case by simp
next
  case (Cons q qs)
  let ?P = "\<lambda>i. ua (index + int i) = field ((q # qs) ! i)"
  let ?S = "{i. i < length qs \<and> ua (index + 1 + int i) = field (qs ! i)}"
  have fin: "finite ?S" by simp
  have split: "{i. i < length (q # qs) \<and> ?P i} = (if ?P 0 then {0} else {}) \<union> Suc ` ?S"
  proof (rule set_eqI)
    fix i
    show "i \<in> {i. i < length (q # qs) \<and> ?P i} \<longleftrightarrow> i \<in> (if ?P 0 then {0} else {}) \<union> Suc ` ?S"
      by (cases i) (auto simp: image_iff add.assoc)
  qed
  have card_img: "card (Suc ` ?S) = card ?S"
    by (rule card_image) simp
  have disj: "(if ?P 0 then {0} else {}) \<inter> Suc ` ?S = {}" by auto
  have "card {i. i < length (q # qs) \<and> ?P i} = (if ?P 0 then 1 else 0) + card ?S"
    unfolding split using fin card_img disj
    by (subst card_Un_disjoint) auto
  then show ?case
    using Cons.IH [of "index + 1"] by simp
qed

lemma forEach_count_le:
  "forEach_count field ua qs index correct \<le> correct + length qs"
proof -
  have "card {i. i < length qs \<and> ua (index + int i) = field (qs ! i)} \<le> card {..<length qs}"
    by (rule card_mono) auto
  then show ?thesis
    by (simp add: forEach_count_card)
qed

lemma calculateScore_card:
  "calculateScore qs ua = card {i. i < length qs \<and> ua (int i) = answer (qs ! i)}"
  by (simp add: calculateScore_def forEach_count_card)

lemma calculateScore_single_card:
  "calculateScore_single qs ua = card {i. i < length qs \<and> ua (int i) = correctAnswer (qs ! i)}"
  by (simp add: calculateScore_single_def forEach_count_card)

lemma calculateScore_le: "calculateScore qs ua \<le> length qs"
  using forEach_count_le [of answer ua qs 0 0] by (simp add: calculateScore_def)

lemma calculateScore_single_le: "calculateScore_single qs ua \<le> length qs"
  using forEach_count_le [of correctAnswer ua qs 0 0] by (simp add: calculateScore_single_def)

lemma matches_answered:
  assumes "\<forall>q \<in> set qs. field q \<noteq> None"
  shows "{i. i < length qs \<and> ua (int i) = field (qs ! i)} =
         {i. i < length qs \<and> (\<exists>a. ua (int i) = Some a \<and> field (qs ! i) = Some a)}"
  using assms by (auto simp: all_set_conv_all_nth)

text \<open>
  Claim C1, as stated, fails on a record that does not carry the property the application
  reads. The multi-category scoring reads \<^verbatim>\<open>q.answer\<close>; for a record spelled
  \<^verbatim>\<open>correctAnswer\<close> that is \<^verbatim>\<open>undefined\<close>, and so is the answer of an index
  without a recorded answer: the unanswered index matches, and a quiz with no answer at
  all scores 1. The single-category scoring does the same on a record spelled
  \<^verbatim>\<open>answer\<close>.
\<close>

theorem unanswered_index_matches_counterexample:
  "(Map.empty :: answers) 0 = None
   \<and> correctAnswer legacy_question = Some ''A''
   \<and> answer legacy_question = None
   \<and> calculateScore [legacy_question] Map.empty = 1
   \<and> answer plain_question = Some ''A''
   \<and> correctAnswer plain_question = None
   \<and> calculateScore_single [plain_question] Map.empty = 1"
  by (simp add: calculateScore_def calculateScore_single_def legacy_question_def
      plain_question_def)

text \<open>
  Claim C1, amended. The score is the number of indices below \<open>length qs\<close> at which the
  recorded answer is strictly equal to the property the application reads
  (\<^verbatim>\<open>answer\<close> in the multi-category file, \<^verbatim>\<open>correctAnswer\<close> in the
  single-category file), an answer that is not recorded and a property that is not there
  being both \<^verbatim>\<open>undefined\<close>; it is at most the number of questions (and at least 0,
  being a natural number). For records that carry that property, it is the number of
  indices whose recorded answer equals the question's correct answer, and an index
  without a recorded answer never matches.
\<close>

theorem score_counts_correct_answers:
  "calculateScore qs ua = card {i. i < length qs \<and> ua (int i) = answer (qs ! i)}
   \<and> calculateScore qs ua \<le> length qs
   \<and> ((\<forall>q \<in> set qs. answer q \<noteq> None) \<longrightarrow>
      calculateScore qs ua =
        card {i. i < length qs \<and> (\<exists>a. ua (int i) = Some a \<and> answer (qs ! i) = Some a)}
      \<and> (\<forall>i < length qs. ua (int i) = None \<longrightarrow> ua (int i) \<noteq> answer (qs ! i)))
   \<and> calculateScore_single qs ua =
        card {i. i < length qs \<and> ua (int i) = correctAnswer (qs ! i)}
   \<and> calculateScore_single qs ua \<le> length qs
   \<and> ((\<forall>q \<in> set qs. correctAnswer q \<noteq> None) \<longrightarrow>
      calculateScore_single qs ua =
        card {i. i < length qs \<and> (\<exists>a. ua (int i) = Some a \<and> correctAnswer (qs ! i) = Some a)}
      \<and> (\<forall>i < length qs. ua (int i) = None \<longrightarrow> ua (int i) \<noteq> correctAnswer (qs ! i)))"
proof (intro conjI impI)
  show "calculateScore qs ua = card {i. i < length qs \<and> ua (int i) = answer (qs ! i)}"
    by (rule calculateScore_card)
  show "calculateScore qs ua \<le> length qs"
    by (rule calculateScore_le)
  show "calculateScore_single qs ua =
        card {i. i < length qs \<and> ua (int i) = correctAnswer (qs ! i)}"
    by (rule calculateScore_single_card)
  show "calculateScore_single qs ua \<le> length qs"
    by (rule calculateScore_single_le)
next
  assume a: "\<forall>q \<in> set qs. answer q \<noteq> None"
  show "calculateScore qs ua =
        card {i. i < length qs \<and> (\<exists>a. ua (int i) = Some a \<and> answer (qs ! i) = Some a)}"
    using matches_answered [OF a, of ua] by (simp add: calculateScore_card)
  show "\<forall>i < length qs. ua (int i) = None \<longrightarrow> ua (int i) \<noteq> answer (qs ! i)"
    using a by (auto simp: all_set_conv_all_nth)
next
  assume a: "\<forall>q \<in> set qs. correctAnswer q \<noteq> None"
  show "calculateScore_single qs ua =
        card {i. i < length qs \<and> (\<exists>a. ua (int i) = Some a \<and> correctAnswer (qs ! i) = Some a)}"
    using matches_answered [OF a, of ua] by (simp add: calculateScore_single_card)
  show "\<forall>i < length qs. ua (int i) = None \<longrightarrow> ua (int i) \<noteq> correctAnswer (qs ! i)"
    using a by (auto simp: all_set_conv_all_nth)
qed

text \<open>
  The scenario of the specification: the answers A, X, C to the questions with correct
  answers A, B, C score 2, under either spelling.
\<close>

theorem score_counts_correct_answers_witness:
  "list_all (\<lambda>q. answer q \<noteq> None) abc_questions
   \<and> list_all (\<lambda>q. correctAnswer q \<noteq> None) abc_questions
   \<and> calculateScore abc_questions axc_answers = 2
   \<and> card {i. i < length abc_questions \<and>
         (\<exists>a. axc_answers (int i) = Some a \<and> answer (abc_questions ! i) = Some a)} = 2
   \<and> calculateScore_single abc_questions axc_answers \<le> length abc_questions"
proof -
  have h1: "\<forall>q \<in> set abc_questions. answer q \<noteq> None"
    by (simp add: abc_questions_def abc_question_def)
  have h2: "\<forall>q \<in> set abc_questions. correctAnswer q \<noteq> None"
    by (simp add: abc_questions_def abc_question_def)
  have s: "calculateScore abc_questions axc_answers = 2"
    by (simp add: calculateScore_def abc_questions_def abc_question_def axc_answers_def)
  show ?thesis
    using score_counts_correct_answers [of abc_questions axc_answers] h1 h2 s
    by (simp add: list_all_iff)
qed

lemma score_normalized_answer_only:
  assumes "\<forall>q \<in> set qs. correctAnswer q = None"
  shows "forEach_count normalized_answer ua qs i c = forEach_count answer ua qs i c"
  using assms by (induction qs arbitrary: i c) (simp_all add: normalized_answer_def)

lemma score_normalized_correctAnswer_only:
  assumes "\<forall>q \<in> set qs. answer q = None"
  shows "forEach_count normalized_answer ua qs i c = forEach_count correctAnswer ua qs i c"
  using assms
  by (induction qs arbitrary: i c) (simp_all add: normalized_answer_def split: option.splits)

text \<open>
  Claim C2, as stated, fails: neither file normalizes the two spellings. The
  multi-category scoring reads \<^verbatim>\<open>q.answer\<close> only, so for a record that spells its
  correct answer \<^verbatim>\<open>correctAnswer\<close> the right answer A scores 0 where scoring against
  the normalized field gives 1; the single-category scoring reads
  \<^verbatim>\<open>q.correctAnswer\<close> only and does the same to a record spelled \<^verbatim>\<open>answer\<close>.
\<close>

theorem no_normalization_counterexample:
  "calculateScore [legacy_question] [0 \<mapsto> ''A''] = 0
   \<and> score_normalized [legacy_question] [0 \<mapsto> ''A''] = 1
   \<and> calculateScore_single [plain_question] [0 \<mapsto> ''A''] = 0
   \<and> score_normalized [plain_question] [0 \<mapsto> ''A''] = 1"
  by (simp add: calculateScore_def calculateScore_single_def score_normalized_def
      normalized_answer_def legacy_question_def plain_question_def)

text \<open>
  Claim C2, amended. Each application reads one spelling: the multi-category scoring
  agrees with scoring against the normalized field when no record uses the spelling
  \<^verbatim>\<open>correctAnswer\<close>, the single-category scoring when no record uses the spelling
  \<^verbatim>\<open>answer\<close>.
\<close>

theorem score_reads_one_spelling:
  "((\<forall>q \<in> set qs. correctAnswer q = None) \<longrightarrow> calculateScore qs ua = score_normalized qs ua)
   \<and> ((\<forall>q \<in> set qs. answer q = None) \<longrightarrow> calculateScore_single qs ua = score_normalized qs ua)"
  by (simp add: calculateScore_def calculateScore_single_def score_normalized_def
      score_normalized_answer_only score_normalized_correctAnswer_only)

theorem score_reads_one_spelling_witness:
  "correctAnswer plain_question = None
   \<and> calculateScore [plain_question] [0 \<mapsto> ''A''] = score_normalized [plain_question] [0 \<mapsto> ''A'']
   \<and> answer legacy_question = None
   \<and> calculateScore_single [legacy_question] [0 \<mapsto> ''A'']
       = score_normalized [legacy_question] [0 \<mapsto> ''A'']"
proof -
  have h1: "\<forall>q \<in> set [plain_question]. correctAnswer q = None"
    by (simp add: plain_question_def)
  have h2: "\<forall>q \<in> set [legacy_question]. answer q = None"
    by (simp add: legacy_question_def)
  show ?thesis
    using score_reads_one_spelling [of "[plain_question]" "[0 \<mapsto> ''A'']"]
      score_reads_one_spelling [of "[legacy_question]" "[0 \<mapsto> ''A'']"] h1 h2
    by simp
qed

section \<open>Properties of navigation\<close>

lemma blank_ahead_reachable:
  "map_option fst (run blank_categories blank_ahead_trace (initial, None)) = Some blank_ahead"
  by (simp add: blank_ahead_trace_def blank_ahead_def blank_categories_def apply_intent_def
      questions_of_def or_null_def initial_def selectCategory_def selectOption_def
      nextQuestion_def prevQuestion_def plain_question_def blank_question_def HOME_def QUIZ_def
      Let_def)

lemma blank_behind_reachable:
  "map_option fst (run blank_categories blank_behind_trace (initial, None)) = Some blank_behind"
  by (simp add: blank_behind_trace_def blank_behind_def blank_categories_def apply_intent_def
      questions_of_def or_null_def initial_def selectCategory_def selectOption_def
      nextQuestion_def prevQuestion_def plain_question_def blank_question_def HOME_def QUIZ_def
      Let_def)

text \<open>
  Claim C4, as stated, fails where the answer recorded for the next question is the empty
  string: \<^verbatim>\<open>newAnswers[currentQuestion + 1] || null\<close> turns it into
  \<^verbatim>\<open>null\<close>. The state \<open>blank_ahead\<close> is reached by intents from the initial
  state; after \<^verbatim>\<open>nextQuestion\<close> the answer recorded for the new index 1 is the
  empty string, and the selected option is absent.
\<close>

theorem nextQuestion_blank_counterexample:
  "map_option fst (run blank_categories blank_ahead_trace (initial, None)) = Some blank_ahead
   \<and> questions_of blank_categories blank_ahead = Some [plain_question, blank_question]
   \<and> currentQuestion (nextQuestion [plain_question, blank_question] blank_ahead) = 1
   \<and> userAnswers (nextQuestion [plain_question, blank_question] blank_ahead) 1 = Some []
   \<and> selectedOption (nextQuestion [plain_question, blank_question] blank_ahead) = None"
  using blank_ahead_reachable
  by (simp add: blank_ahead_def blank_categories_def questions_of_def or_null_def nextQuestion_def)

text \<open>
  Claim C4, amended. \<^verbatim>\<open>nextQuestion\<close> changes nothing when no option is selected.
  Otherwise it records the selected option for the current index; below the last index it
  moves to the next index and selects the answer recorded there, or nothing if none is
  recorded or the recorded answer is the empty string; at the last index (or beyond) it
  leaves the index and the selected option as they are. The screen and, in the
  multi-category application, the selected category do not change.
\<close>

theorem nextQuestion_commits_and_advances:
  fixes s :: "'a quiz_scheme"
  shows
  "(selectedOption s = None \<longrightarrow> nextQuestion qs s = s)
   \<and> (\<forall>sel. selectedOption s = Some sel \<longrightarrow>
        userAnswers (nextQuestion qs s) = (userAnswers s)(currentQuestion s \<mapsto> sel)
        \<and> (currentQuestion s < int (length qs) - 1 \<longrightarrow>
             currentQuestion (nextQuestion qs s) = currentQuestion s + 1
             \<and> selectedOption (nextQuestion qs s) =
                 (if userAnswers s (currentQuestion s + 1) = Some [] then None
                  else userAnswers s (currentQuestion s + 1)))
        \<and> (\<not> currentQuestion s < int (length qs) - 1 \<longrightarrow>
             currentQuestion (nextQuestion qs s) = currentQuestion s
             \<and> selectedOption (nextQuestion qs s) = Some sel)
        \<and> screen (nextQuestion qs s) = screen s
        \<and> \<not> isTransitioning (nextQuestion qs s)
        \<and> quiz.more (nextQuestion qs s) = quiz.more s)"
  by (auto simp: nextQuestion_def or_null_def Let_def split: option.splits)

theorem nextQuestion_commits_and_advances_witness:
  "selectedOption abc_undecided = None
   \<and> nextQuestion abc_questions abc_undecided = abc_undecided
   \<and> selectedOption abc_first = Some ''A''
   \<and> currentQuestion abc_first < int (length abc_questions) - 1
   \<and> userAnswers (nextQuestion abc_questions abc_first) = [1 \<mapsto> ''X'', 0 \<mapsto> ''A'']
   \<and> currentQuestion (nextQuestion abc_questions abc_first) = 1
   \<and> selectedOption (nextQuestion abc_questions abc_first) = Some ''X''
   \<and> selectedOption abc_last = Some ''C''
   \<and> \<not> currentQuestion abc_last < int (length abc_questions) - 1
   \<and> userAnswers (nextQuestion abc_questions abc_last) = [0 \<mapsto> ''A'', 1 \<mapsto> ''X'', 2 \<mapsto> ''C'']
   \<and> currentQuestion (nextQuestion abc_questions abc_last) = 2
   \<and> selectedOption (nextQuestion abc_questions abc_last) = Some ''C''"
proof -
  have h1: "selectedOption abc_undecided = None" by (simp add: abc_undecided_def)
  have h2: "selectedOption abc_first = Some ''A''" by (simp add: abc_first_def)
  have h3: "currentQuestion abc_first < int (length abc_questions) - 1"
    by (simp add: abc_first_def abc_questions_def)
  have h4: "selectedOption abc_last = Some ''C''" by (simp add: abc_last_def)
  have h5: "\<not> currentQuestion abc_last < int (length abc_questions) - 1"
    by (simp add: abc_last_def abc_questions_def)
  have v1: "userAnswers abc_first = [1 \<mapsto> ''X'']" "currentQuestion abc_first = 0"
    by (simp_all add: abc_first_def)
  have v2: "userAnswers abc_last = [0 \<mapsto> ''A'', 1 \<mapsto> ''X'']" "currentQuestion abc_last = 2"
    by (simp_all add: abc_last_def)
  show ?thesis
    using nextQuestion_commits_and_advances [of abc_undecided abc_questions]
      nextQuestion_commits_and_advances [of abc_first abc_questions]
      nextQuestion_commits_and_advances [of abc_last abc_questions]
      h1 h2 h3 h4 h5 v1 v2
    by simp
qed

text \<open>
  Claim C5, as stated, fails in the same way: \<^verbatim>\<open>userAnswers[currentQuestion - 1] || null\<close>
  turns a recorded empty string into \<^verbatim>\<open>null\<close>. The state \<open>blank_behind\<close> is
  reached by intents from the initial state; after \<^verbatim>\<open>prevQuestion\<close> the answer
  recorded for the new index 0 is the empty string, and the selected option is absent.
\<close>

theorem prevQuestion_blank_counterexample:
  "map_option fst (run blank_categories blank_behind_trace (initial, None)) = Some blank_behind
   \<and> currentQuestion (prevQuestion blank_behind) = 0
   \<and> userAnswers (prevQuestion blank_behind) 0 = Some []
   \<and> selectedOption (prevQuestion blank_behind) = None"
  using blank_behind_reachable
  by (simp add: blank_behind_def or_null_def prevQuestion_def)

text \<open>
  Claim C5, amended. \<^verbatim>\<open>prevQuestion\<close> changes nothing at index 0. Otherwise it
  records the selected option, if there is one, for the current index, moves to the
  previous index and selects the answer recorded there, or nothing if none is recorded or
  the recorded answer is the empty string.
\<close>

theorem prevQuestion_commits_and_steps_back:
  fixes s :: "'a quiz_scheme"
  shows
  "(currentQuestion s = 0 \<longrightarrow> prevQuestion s = s)
   \<and> (currentQuestion s \<noteq> 0 \<longrightarrow>
        userAnswers (prevQuestion s) =
          (case selectedOption s of
             None \<Rightarrow> userAnswers s
           | Some sel \<Rightarrow> (userAnswers s)(currentQuestion s \<mapsto> sel))
        \<and> currentQuestion (prevQuestion s) = currentQuestion s - 1
        \<and> selectedOption (prevQuestion s) =
            (if userAnswers (prevQuestion s) (currentQuestion s - 1) = Some [] then None
             else userAnswers (prevQuestion s) (currentQuestion s - 1))
        \<and> screen (prevQuestion s) = screen s
        \<and> \<not> isTransitioning (prevQuestion s)
        \<and> quiz.more (prevQuestion s) = quiz.more s)"
  by (auto simp: prevQuestion_def or_null_def Let_def split: option.splits)

theorem prevQuestion_commits_and_steps_back_witness:
  "currentQuestion abc_first = 0
   \<and> prevQuestion abc_first = abc_first
   \<and> currentQuestion abc_last \<noteq> 0
   \<and> userAnswers (prevQuestion abc_last) = [0 \<mapsto> ''A'', 1 \<mapsto> ''X'', 2 \<mapsto> ''C'']
   \<and> currentQuestion (prevQuestion abc_last) = 1
   \<and> selectedOption (prevQuestion abc_last) = Some ''X''"
proof -
  have h1: "currentQuestion abc_first = 0" by (simp add: abc_first_def)
  have h2: "currentQuestion abc_last \<noteq> 0" by (simp add: abc_last_def)
  have v: "userAnswers abc_last = [0 \<mapsto> ''A'', 1 \<mapsto> ''X'']" "currentQuestion abc_last = 2"
    "selectedOption abc_last = Some ''C''"
    by (simp_all add: abc_last_def)
  show ?thesis
    using prevQuestion_commits_and_steps_back [of abc_first]
      prevQuestion_commits_and_steps_back [of abc_last] h1 h2 v
    by simp
qed

text \<open>
  Claim C7. For an integer percentage the grade is excellent exactly from 80, good exactly
  from 60 to 79, average exactly from 40 to 59 and low exactly below 40; two correct
  answers out of three give the percentage 67 and the grade good.
\<close>

theorem grade_bands:
  "(gradeClass (Num p) = ''grade-excellent'' \<longleftrightarrow> 80 \<le> p)
   \<and> (gradeClass (Num p) = ''grade-good'' \<longleftrightarrow> 60 \<le> p \<and> p < 80)
   \<and> (gradeClass (Num p) = ''grade-average'' \<longleftrightarrow> 40 \<le> p \<and> p < 60)
   \<and> (gradeClass (Num p) = ''grade-low'' \<longleftrightarrow> p < 40)
   \<and> calculateScore abc_questions axc_answers = 2
   \<and> getPercentage abc_questions axc_answers = Num 67
   \<and> gradeClass (getPercentage abc_questions axc_answers) = ''grade-good''"
proof -
  have s: "calculateScore abc_questions axc_answers = 2"
    by (simp add: calculateScore_def abc_questions_def abc_question_def axc_answers_def)
  have l: "length abc_questions = 3"
    by (simp add: abc_questions_def)
  have p: "percentage_of 2 3 = Num 67"
    by code_simp
  have g: "getPercentage abc_questions axc_answers = Num 67"
    by (simp add: getPercentage_def s l p)
  have bands: "(gradeClass (Num p) = ''grade-excellent'' \<longleftrightarrow> 80 \<le> p)
   \<and> (gradeClass (Num p) = ''grade-good'' \<longleftrightarrow> 60 \<le> p \<and> p < 80)
   \<and> (gradeClass (Num p) = ''grade-average'' \<longleftrightarrow> 40 \<le> p \<and> p < 60)
   \<and> (gradeClass (Num p) = ''grade-low'' \<longleftrightarrow> p < 40)"
    by (auto simp: gradeClass_def)
  have good: "gradeClass (Num 67) = ''grade-good''"
    by (simp add: gradeClass_def)
  show ?thesis
    using s g bands good by simp
qed

section \<open>Properties of persistence\<close>

lemma load_document_screen:
  "screen (load_document d s) = or_text (chain (doc_currentView d) view_screen) HOME"
  by (simp add: load_document_def Let_def split: option.splits field.splits)

lemma load_document_category:
  "selectedCategory (load_document d s) =
     or_null_field (chain (doc_currentView d) view_selectedCategory)"
  by (simp add: load_document_def Let_def split: option.splits field.splits)

lemma load_document_session:
  assumes "or_null_field (chain (doc_currentView d) view_selectedCategory) = Some key"
    and "chain (doc_categories d) (\<lambda>c. entry c key) = Val cs"
  shows "currentQuestion (load_document d s) = or_number (cat_currentQuestion cs) 0"
    and "userAnswers (load_document d s) = or_object (cat_userAnswers cs) Map.empty"
    and "selectedOption (load_document d s) = or_null_field (cat_selectedOption cs)"
  using assms by (simp_all add: load_document_def Let_def)

lemma load_document_no_category:
  assumes "or_null_field (chain (doc_currentView d) view_selectedCategory) = None"
  shows "currentQuestion (load_document d s) = currentQuestion s"
    and "userAnswers (load_document d s) = userAnswers s"
    and "selectedOption (load_document d s) = selectedOption s"
  using assms by (simp_all add: load_document_def Let_def)

lemma load_document_no_entry:
  assumes "or_null_field (chain (doc_currentView d) view_selectedCategory) = Some key"
    and "falsy_object (chain (doc_categories d) (\<lambda>c. entry c key))"
  shows "currentQuestion (load_document d s) = currentQuestion s"
    and "userAnswers (load_document d s) = userAnswers s"
    and "selectedOption (load_document d s) = selectedOption s"
  using assms
  by (cases "chain (doc_categories d) (\<lambda>c. entry c key)"; simp add: load_document_def Let_def)+

lemma load_document_rest:
  "isTransitioning (load_document d s) = isTransitioning s"
  by (simp add: load_document_def Let_def split: option.splits field.splits)

lemma or_null_field_Some: "or_null_field f = Some key \<longleftrightarrow> f = Val key \<and> key \<noteq> []"
  by (cases f) auto

lemma or_null_field_None: "or_null_field f = None \<longleftrightarrow> falsy_text f"
  by (cases f) auto

lemma or_text_falsy: "falsy_text f \<Longrightarrow> or_text f d = d"
  by (cases f) auto

lemma or_number_falsy: "falsy_number f \<Longrightarrow> or_number f d = d"
  by (cases f) auto

lemma or_object_falsy: "falsy_object f \<Longrightarrow> or_object f d = d"
  by (cases f) auto

lemma initial_fields [simp]:
  "screen initial = HOME" "selectedCategory initial = None" "currentQuestion initial = 0"
  "userAnswers initial = Map.empty" "selectedOption initial = None" "\<not> isTransitioning initial"
  by (simp_all add: initial_def)

lemma initial_single_fields [simp]:
  "screen initial_single = HOME" "currentQuestion initial_single = 0"
  "userAnswers initial_single = Map.empty" "selectedOption initial_single = None"
  "\<not> isTransitioning initial_single"
  by (simp_all add: initial_single_def)

lemma load_flat_fields [simp]:
  "screen (load_flat fd q) = or_text (flat_screen fd) HOME"
  "currentQuestion (load_flat fd q) = or_number (flat_currentQuestion fd) 0"
  "userAnswers (load_flat fd q) = or_object (flat_userAnswers fd) Map.empty"
  "selectedOption (load_flat fd q) = or_null_field (flat_selectedOption fd)"
  "isTransitioning (load_flat fd q) = isTransitioning q"
  by (simp_all add: load_flat_def)

lemma load_document_falsy_session:
  assumes "chain (doc_currentView d) view_selectedCategory = Val key"
    and "chain (doc_categories d) (\<lambda>c. entry c key) = Val cs"
  shows "falsy_number (cat_currentQuestion cs) \<Longrightarrow> currentQuestion (load_document d initial) = 0"
    and "falsy_object (cat_userAnswers cs) \<Longrightarrow> userAnswers (load_document d initial) = Map.empty"
    and "falsy_text (cat_selectedOption cs) \<Longrightarrow> selectedOption (load_document d initial) = None"
proof -
  consider "key = []" | "key \<noteq> []" by blast
  then have
    "(falsy_number (cat_currentQuestion cs) \<longrightarrow> currentQuestion (load_document d initial) = 0)
     \<and> (falsy_object (cat_userAnswers cs) \<longrightarrow> userAnswers (load_document d initial) = Map.empty)
     \<and> (falsy_text (cat_selectedOption cs) \<longrightarrow> selectedOption (load_document d initial) = None)"
  proof cases
    case 1
    with assms(1) have "or_null_field (chain (doc_currentView d) view_selectedCategory) = None"
      by simp
    then show ?thesis
      by (simp add: load_document_no_category)
  next
    case 2
    with assms(1) have "or_null_field (chain (doc_currentView d) view_selectedCategory) = Some key"
      by simp
    then show ?thesis
      using assms(2)
      by (simp add: load_document_session or_number_falsy or_object_falsy or_null_field_None)
  qed
  then show "falsy_number (cat_currentQuestion cs) \<Longrightarrow> currentQuestion (load_document d initial) = 0"
    and "falsy_object (cat_userAnswers cs) \<Longrightarrow> userAnswers (load_document d initial) = Map.empty"
    and "falsy_text (cat_selectedOption cs) \<Longrightarrow> selectedOption (load_document d initial) = None"
    by blast+
qed

lemma selectCategory_session:
  assumes "getSavedCategoryData key st = Some cs"
  shows "currentQuestion (selectCategory key st s) = or_number (cat_currentQuestion cs) 0"
    and "userAnswers (selectCategory key st s) = or_object (cat_userAnswers cs) Map.empty"
    and "selectedOption (selectCategory key st s) = or_null_field (cat_selectedOption cs)"
  using assms by (simp_all add: selectCategory_def Let_def)

lemma selectCategory_fresh:
  assumes "getSavedCategoryData key st = None"
  shows "currentQuestion (selectCategory key st s) = 0"
    and "userAnswers (selectCategory key st s) = Map.empty"
    and "selectedOption (selectCategory key st s) = None"
  using assms by (simp_all add: selectCategory_def Let_def)

lemma selectCategory_view [simp]:
  "selectedCategory (selectCategory key st s) = Some key"
  "screen (selectCategory key st s) = QUIZ"
  "\<not> isTransitioning (selectCategory key st s)"
  by (simp_all add: selectCategory_def Let_def split: option.splits)

text \<open>What the save effect stores, read back.\<close>

lemma save_document_view:
  assumes "save_document s d = Inr written"
  shows "chain (doc_currentView written) view_screen = Val (screen s)"
    and "chain (doc_currentView written) view_selectedCategory = nullable (selectedCategory s)"
  using assms
  by (auto simp: save_document_def Let_def split: option.splits sum.splits)

lemma or_null_field_nullable [simp]: "or_null_field (nullable x) = or_null x"
  by (cases x) (simp_all add: or_null_def)

lemma save_document_entry:
  assumes "save_document s d = Inr written" "takes_entry (doc_categories d)"
    and "or_null (selectedCategory s) = Some key"
  shows "chain (doc_categories written) (\<lambda>c. entry c key) =
    Val \<lparr>cat_currentQuestion = Val (currentQuestion s), cat_userAnswers = Val (userAnswers s),
         cat_selectedOption = nullable (selectedOption s)\<rparr>"
  using assms
  by (cases "doc_categories d" rule: categories_or_fresh.cases)
    (auto simp: save_document_def Let_def)

lemma save_document_other_entry:
  assumes "save_document s d = Inr written" "or_null (selectedCategory s) \<noteq> Some key"
  shows "chain (doc_categories written) (\<lambda>c. entry c key) =
         chain (doc_categories d) (\<lambda>c. entry c key)"
  using assms
  by (cases "doc_categories d" rule: categories_or_fresh.cases)
    (auto simp: save_document_def Let_def split: option.splits if_splits)

lemma accepts_save_cases:
  assumes "accepts_save st"
  obtains d written where "save s st = Some (Parsed (PObject written))"
    "save_document s d = Inr written" "takes_entry (doc_categories d)"
proof (cases st rule: store_cases)
  case 1
  obtain written where w: "save_document s fresh_document = Inr written"
    by (rule save_fresh_document)
  have t: "takes_entry (doc_categories fresh_document)"
    by (simp add: fresh_document_def)
  show ?thesis
    by (rule that [of written fresh_document]) (simp_all add: 1 w t)
next
  case 2
  obtain written where w: "save_document s fresh_document = Inr written"
    by (rule save_fresh_document)
  have t: "takes_entry (doc_categories fresh_document)"
    by (simp add: fresh_document_def)
  show ?thesis
    by (rule that [of written fresh_document]) (simp_all add: 2 w t)
next
  case (3 d)
  with assms have t: "takes_entry (doc_categories d)" by simp
  show ?thesis
  proof (cases rule: save_document_cases [of s d])
    case (1 written)
    show ?thesis
      by (rule that [of written d]) (simp_all add: 3 1 t)
  next
    case 2
    with t show ?thesis by simp
  qed
qed (use assms in simp_all)

lemma load_save_view:
  assumes "accepts_save st"
  shows "screen (load (save s st)) = (if screen s = [] then HOME else screen s)"
    and "selectedCategory (load (save s st)) = or_null (selectedCategory s)"
    and "\<not> isTransitioning (load (save s st))"
proof -
  obtain d written where d: "save s st = Some (Parsed (PObject written))"
    and w: "save_document s d = Inr written"
    using assms by (rule accepts_save_cases)
  show "screen (load (save s st)) = (if screen s = [] then HOME else screen s)"
    by (simp add: d load_document_screen save_document_view [OF w])
  show "selectedCategory (load (save s st)) = or_null (selectedCategory s)"
    by (simp add: d load_document_category save_document_view [OF w])
  show "\<not> isTransitioning (load (save s st))"
    by (simp add: d load_document_rest)
qed

lemma load_save_session:
  assumes "accepts_save st" "or_null (selectedCategory s) = Some key"
  shows "currentQuestion (load (save s st)) = currentQuestion s"
    and "userAnswers (load (save s st)) = userAnswers s"
    and "selectedOption (load (save s st)) = or_null (selectedOption s)"
proof -
  obtain d written where d: "save s st = Some (Parsed (PObject written))"
    and w: "save_document s d = Inr written" and t: "takes_entry (doc_categories d)"
    using assms(1) by (rule accepts_save_cases)
  have c: "or_null_field (chain (doc_currentView written) view_selectedCategory) = Some key"
    using assms(2) by (simp add: save_document_view [OF w])
  note e = save_document_entry [OF w t assms(2)]
  show "currentQuestion (load (save s st)) = currentQuestion s"
    by (simp add: d load_document_session(1) [OF c e])
  show "userAnswers (load (save s st)) = userAnswers s"
    by (simp add: d load_document_session(2) [OF c e])
  show "selectedOption (load (save s st)) = or_null (selectedOption s)"
    by (simp add: d load_document_session(3) [OF c e])
qed

lemma load_save_no_session:
  assumes "accepts_save st" "or_null (selectedCategory s) = None"
  shows "currentQuestion (load (save s st)) = 0"
    and "userAnswers (load (save s st)) = Map.empty"
    and "selectedOption (load (save s st)) = None"
proof -
  obtain d written where d: "save s st = Some (Parsed (PObject written))"
    and w: "save_document s d = Inr written"
    using assms(1) by (rule accepts_save_cases)
  have c: "or_null_field (chain (doc_currentView written) view_selectedCategory) = None"
    using assms(2) by (simp add: save_document_view [OF w])
  show "currentQuestion (load (save s st)) = 0"
    by (simp add: d load_document_no_category(1) [OF c])
  show "userAnswers (load (save s st)) = Map.empty"
    by (simp add: d load_document_no_category(2) [OF c])
  show "selectedOption (load (save s st)) = None"
    by (simp add: d load_document_no_category(3) [OF c])
qed

lemma load_save_single_fields:
  "screen (load_single (save_single q)) = (if screen q = [] then HOME else screen q)"
  "currentQuestion (load_single (save_single q)) = currentQuestion q"
  "userAnswers (load_single (save_single q)) = userAnswers q"
  "selectedOption (load_single (save_single q)) = or_null (selectedOption q)"
  "\<not> isTransitioning (load_single (save_single q))"
  by (simp_all add: save_single_def)

text \<open>
  A selected empty string is not loaded back, whatever the store held: where the entry is
  written it is read as none, and where it is not written there is no entry to read.
\<close>

lemma load_document_without_entry:
  assumes "\<And>key. chain (doc_categories d) (\<lambda>c. entry c key) = Missing"
  shows "selectedOption (load_document d initial) = None"
  using assms by (simp add: load_document_def Let_def split: option.splits)

lemma empty_option_lost:
  assumes "selectedOption s = Some []" "selectedCategory s \<noteq> None" "selectedCategory s \<noteq> Some []"
  shows "selectedOption (load (save s st)) = None"
proof -
  from assms(2,3) obtain key where k: "or_null (selectedCategory s) = Some key"
    by (auto simp: or_null_def)
  have accepted: ?thesis if "accepts_save st"
    using that assms(1) by (simp add: load_save_session(3) [OF that k] or_null_def)
  show ?thesis
  proof (cases st rule: store_cases)
    case 1
    then show ?thesis by (intro accepted) simp
  next
    case 2
    then show ?thesis by (intro accepted) simp
  next
    case (3 d)
    show ?thesis
    proof (cases "doc_categories d" rule: takes_entry.cases)
      case (2)
      then have "save_document s d = Inr (d\<lparr>doc_currentView :=
          Val \<lparr>view_screen = Val (screen s),
               view_selectedCategory = nullable (selectedCategory s)\<rparr>\<rparr>)"
        using k by (simp add: save_document_def Let_def)
      with 2 show ?thesis
        by (simp add: 3 load_document_without_entry)
    next
      case (3 truthy)
      show ?thesis
      proof (cases truthy)
        case True
        with 3 have "save_document s d = Inl TypeError"
          using k by (intro save_document_throws) simp_all
        with 3 show ?thesis
          by (simp add: \<open>st = Some (Parsed (PObject d))\<close> load_document_without_entry)
      next
        case False
        with 3 show ?thesis
          by (intro accepted) (simp add: \<open>st = Some (Parsed (PObject d))\<close>)
      qed
    qed (intro accepted, simp add: 3)+
  qed (simp_all add: load_document_without_entry no_properties_def)
qed

text \<open>
  Claim C10. Rehydration turns every falsy stored value into the default of its field: a
  falsy screen into the home screen, a falsy selected category into none, and, in the
  entry of the selected category (or in the flat document of the single-category
  application), a falsy \<^verbatim>\<open>currentQuestion\<close> into 0, falsy answers into the empty
  record and a falsy \<^verbatim>\<open>selectedOption\<close>, the empty string included, into none.
  \<^verbatim>\<open>selectCategory\<close> reads a saved entry in the same way. So a selected empty
  string does not survive saving and loading.
\<close>

theorem rehydration_coerces_falsy:
  fixes d :: document and fd :: flat_document and s s' :: app and q :: quiz
  shows
  "(falsy_text (chain (doc_currentView d) view_screen) \<longrightarrow>
      screen (load (Some (Parsed (PObject d)))) = HOME)
   \<and> (falsy_text (chain (doc_currentView d) view_selectedCategory) \<longrightarrow>
      selectedCategory (load (Some (Parsed (PObject d)))) = None)
   \<and> (\<forall>key cs. chain (doc_currentView d) view_selectedCategory = Val key
          \<and> chain (doc_categories d) (\<lambda>c. entry c key) = Val cs \<longrightarrow>
        (falsy_number (cat_currentQuestion cs) \<longrightarrow>
           currentQuestion (load (Some (Parsed (PObject d)))) = 0)
        \<and> (falsy_object (cat_userAnswers cs) \<longrightarrow>
           userAnswers (load (Some (Parsed (PObject d)))) = Map.empty)
        \<and> (falsy_text (cat_selectedOption cs) \<longrightarrow>
           selectedOption (load (Some (Parsed (PObject d)))) = None))
   \<and> (falsy_text (flat_screen fd) \<longrightarrow> screen (load_single (Some (Parsed (PObject fd)))) = HOME)
   \<and> (falsy_number (flat_currentQuestion fd) \<longrightarrow>
      currentQuestion (load_single (Some (Parsed (PObject fd)))) = 0)
   \<and> (falsy_object (flat_userAnswers fd) \<longrightarrow>
      userAnswers (load_single (Some (Parsed (PObject fd)))) = Map.empty)
   \<and> (falsy_text (flat_selectedOption fd) \<longrightarrow>
      selectedOption (load_single (Some (Parsed (PObject fd)))) = None)
   \<and> (\<forall>cs. getSavedCategoryData categoryKey st = Some cs \<longrightarrow>
        (falsy_number (cat_currentQuestion cs) \<longrightarrow>
           currentQuestion (selectCategory categoryKey st s) = 0)
        \<and> (falsy_object (cat_userAnswers cs) \<longrightarrow>
           userAnswers (selectCategory categoryKey st s) = Map.empty)
        \<and> (falsy_text (cat_selectedOption cs) \<longrightarrow>
           selectedOption (selectCategory categoryKey st s) = None))
   \<and> (selectedOption s' = Some [] \<and> selectedCategory s' \<noteq> None \<and> selectedCategory s' \<noteq> Some []
        \<longrightarrow> selectedOption (load (save s' st')) = None)
   \<and> (selectedOption q = Some [] \<longrightarrow> selectedOption (load_single (save_single q)) = None)"
proof (intro conjI allI impI)
  show "screen (load (Some (Parsed (PObject d)))) = HOME"
    if "falsy_text (chain (doc_currentView d) view_screen)"
    using that by (simp add: load_document_screen or_text_falsy)
  show "selectedCategory (load (Some (Parsed (PObject d)))) = None"
    if "falsy_text (chain (doc_currentView d) view_selectedCategory)"
    using that by (simp add: load_document_category or_null_field_None)
  show "currentQuestion (load (Some (Parsed (PObject d)))) = 0"
    if "chain (doc_currentView d) view_selectedCategory = Val key
          \<and> chain (doc_categories d) (\<lambda>c. entry c key) = Val cs"
      and "falsy_number (cat_currentQuestion cs)" for key cs
    using that load_document_falsy_session(1) [of d key cs] by simp
  show "userAnswers (load (Some (Parsed (PObject d)))) = Map.empty"
    if "chain (doc_currentView d) view_selectedCategory = Val key
          \<and> chain (doc_categories d) (\<lambda>c. entry c key) = Val cs"
      and "falsy_object (cat_userAnswers cs)" for key cs
    using that load_document_falsy_session(2) [of d key cs] by simp
  show "selectedOption (load (Some (Parsed (PObject d)))) = None"
    if "chain (doc_currentView d) view_selectedCategory = Val key
          \<and> chain (doc_categories d) (\<lambda>c. entry c key) = Val cs"
      and "falsy_text (cat_selectedOption cs)" for key cs
    using that load_document_falsy_session(3) [of d key cs] by simp
  show "screen (load_single (Some (Parsed (PObject fd)))) = HOME" if "falsy_text (flat_screen fd)"
    using that by (simp add: or_text_falsy)
  show "currentQuestion (load_single (Some (Parsed (PObject fd)))) = 0"
    if "falsy_number (flat_currentQuestion fd)"
    using that by (simp add: or_number_falsy)
  show "userAnswers (load_single (Some (Parsed (PObject fd)))) = Map.empty"
    if "falsy_object (flat_userAnswers fd)"
    using that by (simp add: or_object_falsy)
  show "selectedOption (load_single (Some (Parsed (PObject fd)))) = None"
    if "falsy_text (flat_selectedOption fd)"
    using that by (simp add: or_null_field_None)
  show "currentQuestion (selectCategory categoryKey st s) = 0"
    if "getSavedCategoryData categoryKey st = Some cs" "falsy_number (cat_currentQuestion cs)" for cs
    using that by (simp add: selectCategory_session or_number_falsy)
  show "userAnswers (selectCategory categoryKey st s) = Map.empty"
    if "getSavedCategoryData categoryKey st = Some cs" "falsy_object (cat_userAnswers cs)" for cs
    using that by (simp add: selectCategory_session or_object_falsy)
  show "selectedOption (selectCategory categoryKey st s) = None"
    if "getSavedCategoryData categoryKey st = Some cs" "falsy_text (cat_selectedOption cs)" for cs
    using that by (simp add: selectCategory_session or_null_field_None)
  show "selectedOption (load (save s' st')) = None"
    if "selectedOption s' = Some [] \<and> selectedCategory s' \<noteq> None \<and> selectedCategory s' \<noteq> Some []"
    using that by (intro empty_option_lost) simp_all
  show "selectedOption (load_single (save_single q)) = None" if "selectedOption q = Some []"
    using that by (simp add: load_save_single_fields or_null_def)
qed


theorem rehydration_coerces_falsy_witness:
  "falsy_text (Val [])
   \<and> falsy_number Null
   \<and> screen (load (Some (Parsed (PObject falsy_document)))) = HOME
   \<and> currentQuestion (load (Some (Parsed (PObject falsy_document)))) = 0
   \<and> userAnswers (load (Some (Parsed (PObject falsy_document)))) = Map.empty
   \<and> selectedOption (load (Some (Parsed (PObject falsy_document)))) = None
   \<and> currentQuestion (load_single (Some (Parsed (PObject falsy_flat)))) = 0
   \<and> selectedOption (load_single (Some (Parsed (PObject falsy_flat)))) = None
   \<and> selectedOption (selectCategory ''PART1'' (Some (Parsed (PObject falsy_document))) initial) = None
   \<and> selectedOption blank_selected = Some []
   \<and> selectedOption (load (save blank_selected None)) = None
   \<and> selectedOption (load_single (save_single blank_selected_single)) = None"
proof -
  let ?entry = "\<lparr>cat_currentQuestion = Null, cat_userAnswers = Null, cat_selectedOption = Val []\<rparr>"
  have view: "chain (doc_currentView falsy_document) view_screen = Val []"
    "chain (doc_currentView falsy_document) view_selectedCategory = Val ''PART1''"
    by (simp_all add: falsy_document_def)
  have entry: "chain (doc_categories falsy_document) (\<lambda>c. entry c ''PART1'') = Val ?entry"
    by (simp add: falsy_document_def)
  have saved: "getSavedCategoryData ''PART1'' (Some (Parsed (PObject falsy_document))) = Some ?entry"
    by (simp add: entry)
  have flat: "flat_currentQuestion falsy_flat = Val 0" "flat_selectedOption falsy_flat = Val []"
    by (simp_all add: falsy_flat_def)
  have sel: "selectedOption blank_selected = Some []" "selectedCategory blank_selected = Some ''PART2''"
    "selectedOption blank_selected_single = Some []"
    by (simp_all add: blank_selected_def blank_selected_single_def)
  show ?thesis
    using rehydration_coerces_falsy [where d = falsy_document and fd = falsy_flat
        and categoryKey = "''PART1''" and st = "Some (Parsed (PObject falsy_document))"
        and s = initial and s' = blank_selected and st' = None and q = blank_selected_single]
      view entry saved flat sel
    by simp
qed

lemma load_try_caught:
  "load_try saved initial = Inl e \<Longrightarrow> load (Some saved) = initial"
  by (cases saved) (simp_all add: load_def)

lemma load_single_try_caught:
  "load_single_try saved initial_single = Inl e \<Longrightarrow> load_single (Some saved) = initial_single"
  by (cases saved) (simp_all add: load_single_def)

lemma load_partial_document:
  fixes d :: document
  defines "L \<equiv> load (Some (Parsed (PObject d)))"
  shows "(chain (doc_currentView d) view_screen = Missing \<longrightarrow> screen L = HOME)
   \<and> (\<forall>v. chain (doc_currentView d) view_screen = Val v \<and> v \<noteq> [] \<longrightarrow> screen L = v)
   \<and> (chain (doc_currentView d) view_selectedCategory = Missing \<longrightarrow>
        selectedCategory L = None \<and> currentQuestion L = 0 \<and> userAnswers L = Map.empty
        \<and> selectedOption L = None)
   \<and> (\<forall>key. chain (doc_currentView d) view_selectedCategory = Val key \<and> key \<noteq> [] \<longrightarrow>
        selectedCategory L = Some key
        \<and> (chain (doc_categories d) (\<lambda>c. entry c key) = Missing \<longrightarrow>
             currentQuestion L = 0 \<and> userAnswers L = Map.empty \<and> selectedOption L = None)
        \<and> (\<forall>cs. chain (doc_categories d) (\<lambda>c. entry c key) = Val cs \<longrightarrow>
             (cat_currentQuestion cs = Missing \<longrightarrow> currentQuestion L = 0)
             \<and> (\<forall>n. cat_currentQuestion cs = Val n \<longrightarrow> currentQuestion L = n)
             \<and> (cat_userAnswers cs = Missing \<longrightarrow> userAnswers L = Map.empty)
             \<and> (\<forall>m. cat_userAnswers cs = Val m \<longrightarrow> userAnswers L = m)
             \<and> (cat_selectedOption cs = Missing \<longrightarrow> selectedOption L = None)
             \<and> (\<forall>v. cat_selectedOption cs = Val v \<and> v \<noteq> [] \<longrightarrow> selectedOption L = Some v)))"
proof -
  have no_cat: "currentQuestion L = 0 \<and> userAnswers L = Map.empty \<and> selectedOption L = None"
    if "or_null_field (chain (doc_currentView d) view_selectedCategory) = None"
    using that by (simp add: L_def load_document_no_category)
  have no_entry: "currentQuestion L = 0 \<and> userAnswers L = Map.empty \<and> selectedOption L = None"
    if "or_null_field (chain (doc_currentView d) view_selectedCategory) = Some key"
      and "chain (doc_categories d) (\<lambda>c. entry c key) = Missing" for key
    using that by (simp add: L_def load_document_no_entry)
  have entry: "currentQuestion L = or_number (cat_currentQuestion cs) 0
      \<and> userAnswers L = or_object (cat_userAnswers cs) Map.empty
      \<and> selectedOption L = or_null_field (cat_selectedOption cs)"
    if "or_null_field (chain (doc_currentView d) view_selectedCategory) = Some key"
      and "chain (doc_categories d) (\<lambda>c. entry c key) = Val cs" for key cs
    using that by (simp add: L_def load_document_session)
  have scr: "screen L = or_text (chain (doc_currentView d) view_screen) HOME"
    by (simp add: L_def load_document_screen)
  have cat: "selectedCategory L = or_null_field (chain (doc_currentView d) view_selectedCategory)"
    by (simp add: L_def load_document_category)
  show ?thesis
  proof (intro conjI allI impI)
    show "screen L = HOME" if "chain (doc_currentView d) view_screen = Missing"
      using that scr by simp
    show "screen L = v" if "chain (doc_currentView d) view_screen = Val v \<and> v \<noteq> []" for v
      using that scr by simp
    show "selectedCategory L = None" if "chain (doc_currentView d) view_selectedCategory = Missing"
      using that cat by simp
    show "currentQuestion L = 0" "userAnswers L = Map.empty" "selectedOption L = None"
      if "chain (doc_currentView d) view_selectedCategory = Missing"
      using that no_cat by simp_all
    show "selectedCategory L = Some key"
      if "chain (doc_currentView d) view_selectedCategory = Val key \<and> key \<noteq> []" for key
      using that cat by simp
    show "currentQuestion L = 0" "userAnswers L = Map.empty" "selectedOption L = None"
      if "chain (doc_currentView d) view_selectedCategory = Val key \<and> key \<noteq> []"
        and "chain (doc_categories d) (\<lambda>c. entry c key) = Missing" for key
      using that no_entry [of key] by simp_all
    show "currentQuestion L = 0"
      if "chain (doc_currentView d) view_selectedCategory = Val key \<and> key \<noteq> []"
        and "chain (doc_categories d) (\<lambda>c. entry c key) = Val cs"
        and "cat_currentQuestion cs = Missing" for key cs
      using that entry [of key cs] by simp
    show "currentQuestion L = n"
      if "chain (doc_currentView d) view_selectedCategory = Val key \<and> key \<noteq> []"
        and "chain (doc_categories d) (\<lambda>c. entry c key) = Val cs"
        and "cat_currentQuestion cs = Val n" for key cs n
      using that entry [of key cs] by simp
    show "userAnswers L = Map.empty"
      if "chain (doc_currentView d) view_selectedCategory = Val key \<and> key \<noteq> []"
        and "chain (doc_categories d) (\<lambda>c. entry c key) = Val cs"
        and "cat_userAnswers cs = Missing" for key cs
      using that entry [of key cs] by simp
    show "userAnswers L = m"
      if "chain (doc_currentView d) view_selectedCategory = Val key \<and> key \<noteq> []"
        and "chain (doc_categories d) (\<lambda>c. entry c key) = Val cs"
        and "cat_userAnswers cs = Val m" for key cs m
      using that entry [of key cs] by simp
    show "selectedOption L = None"
      if "chain (doc_currentView d) view_selectedCategory = Val key \<and> key \<noteq> []"
        and "chain (doc_categories d) (\<lambda>c. entry c key) = Val cs"
        and "cat_selectedOption cs = Missing" for key cs
      using that entry [of key cs] by simp
    show "selectedOption L = Some v"
      if "chain (doc_currentView d) view_selectedCategory = Val key \<and> key \<noteq> []"
        and "chain (doc_categories d) (\<lambda>c. entry c key) = Val cs"
        and "cat_selectedOption cs = Val v \<and> v \<noteq> []" for key cs v
      using that entry [of key cs] by simp
  qed
qed

lemma load_partial_flat:
  fixes fd :: flat_document
  defines "L \<equiv> load_single (Some (Parsed (PObject fd)))"
  shows "(flat_screen fd = Missing \<longrightarrow> screen L = HOME)
   \<and> (\<forall>v. flat_screen fd = Val v \<and> v \<noteq> [] \<longrightarrow> screen L = v)
   \<and> (flat_currentQuestion fd = Missing \<longrightarrow> currentQuestion L = 0)
   \<and> (\<forall>n. flat_currentQuestion fd = Val n \<longrightarrow> currentQuestion L = n)
   \<and> (flat_userAnswers fd = Missing \<longrightarrow> userAnswers L = Map.empty)
   \<and> (\<forall>m. flat_userAnswers fd = Val m \<longrightarrow> userAnswers L = m)
   \<and> (flat_selectedOption fd = Missing \<longrightarrow> selectedOption L = None)
   \<and> (\<forall>v. flat_selectedOption fd = Val v \<and> v \<noteq> [] \<longrightarrow> selectedOption L = Some v)"
  unfolding L_def
  by auto

lemma app_eqI:
  fixes a b :: app
  assumes "screen a = screen b" "currentQuestion a = currentQuestion b"
    "userAnswers a = userAnswers b" "selectedOption a = selectedOption b"
    "isTransitioning a = isTransitioning b" "selectedCategory a = selectedCategory b"
  shows "a = b"
  using assms by (cases a, cases b) simp

lemma quiz_eqI:
  fixes a b :: quiz
  assumes "screen a = screen b" "currentQuestion a = currentQuestion b"
    "userAnswers a = userAnswers b" "selectedOption a = selectedOption b"
    "isTransitioning a = isTransitioning b"
  shows "a = b"
  using assms by (cases a, cases b) simp

lemma or_null_id: "x \<noteq> Some [] \<Longrightarrow> or_null x = x"
  by (cases x) (simp_all add: or_null_def)

lemma load_save_app:
  assumes "accepts_save st" "\<not> isTransitioning s" "screen s \<noteq> []"
    "selectedCategory s \<noteq> Some []" "selectedOption s \<noteq> Some []"
    "selectedCategory s = None \<longrightarrow>
       currentQuestion s = 0 \<and> userAnswers s = Map.empty \<and> selectedOption s = None"
  shows "load (save s st) = s"
proof (cases "selectedCategory s")
  case None
  then have n: "or_null (selectedCategory s) = None" by (simp add: or_null_def)
  show ?thesis
    using assms None
    by (intro app_eqI)
      (simp_all add: load_save_view [OF assms(1)] load_save_no_session [OF assms(1) n] or_null_def)
next
  case (Some key)
  with assms(4) have k: "or_null (selectedCategory s) = Some key" by (simp add: or_null_def)
  show ?thesis
    using assms Some
    by (intro app_eqI)
      (simp_all add: load_save_view [OF assms(1)] load_save_session [OF assms(1) k] or_null_id k)
qed

lemma load_save_quiz:
  fixes q :: quiz
  assumes "\<not> isTransitioning q" "screen q \<noteq> []" "selectedOption q \<noteq> Some []"
  shows "load_single (save_single q) = q"
  using assms by (intro quiz_eqI) (simp_all add: load_save_single_fields or_null_id)

lemma blank_selected_reachable:
  "map_option fst (run blank_categories blank_selected_trace (initial, None)) = Some blank_selected"
  by (simp add: blank_selected_trace_def blank_selected_def blank_categories_def apply_intent_def
      questions_of_def or_null_def initial_def selectCategory_def selectOption_def
      HOME_def QUIZ_def Let_def)

lemma visited_unsaved:
  "run blank_categories visit_trace (load (Some Unparseable), Some Unparseable)
     = Some (visited, Some Unparseable)"
  by (simp add: visit_trace_def visited_def blank_categories_def apply_intent_def
      questions_of_def or_null_def initial_def selectCategory_def selectOption_def nextQuestion_def
      plain_question_def blank_question_def HOME_def QUIZ_def Let_def)

text \<open>
  Claim C3, as stated, fails. A selected empty string is a state reached by intents, and
  saving then loading it gives a state without a selected option, in both applications.
  And the save effect of the multi-category application updates what is stored: when the
  stored string does not parse it writes nothing, so loading gives the initial state
  whatever the state was; when the stored object has an array for \<^verbatim>\<open>categories\<close>
  the session is not written with it, and when it has a non-empty string there the
  assignment of the session throws and the store stays as it was. In each case the state
  reached at index 1 loads back at index 0.
\<close>

theorem save_load_counterexample:
  "map_option fst (run blank_categories blank_selected_trace (initial, None)) = Some blank_selected
   \<and> selectedOption blank_selected = Some []
   \<and> selectedOption (load (save blank_selected None)) = None
   \<and> selectedOption blank_selected_single = Some []
   \<and> selectedOption (load_single (save_single blank_selected_single)) = None
   \<and> run blank_categories visit_trace (load (Some Unparseable), Some Unparseable)
       = Some (visited, Some Unparseable)
   \<and> currentQuestion visited = 1
   \<and> currentQuestion (load (save visited (Some Unparseable))) = 0
   \<and> map_option fst (run blank_categories visit_trace
         (load (Some (Parsed (PObject array_document))), Some (Parsed (PObject array_document))))
       = Some visited
   \<and> currentQuestion (load (save visited (Some (Parsed (PObject array_document))))) = 0
   \<and> map_option fst (run blank_categories visit_trace
         (load (Some (Parsed (PObject string_document))), Some (Parsed (PObject string_document))))
       = Some visited
   \<and> save visited (Some (Parsed (PObject string_document)))
       = Some (Parsed (PObject string_document))
   \<and> currentQuestion (load (save visited (Some (Parsed (PObject string_document))))) = 0"
proof -
  have a: "selectedOption (load (save blank_selected None)) = None"
    using load_save_session(3) [of None blank_selected "''PART2''"]
    by (simp add: blank_selected_def or_null_def)
  have b: "selectedOption (load_single (save_single blank_selected_single)) = None"
    by (simp add: load_save_single_fields blank_selected_single_def or_null_def)
  have c: "map_option fst (run blank_categories visit_trace
         (load (Some (Parsed (PObject array_document))), Some (Parsed (PObject array_document))))
       = Some visited
     \<and> currentQuestion (load (save visited (Some (Parsed (PObject array_document))))) = 0
     \<and> map_option fst (run blank_categories visit_trace
         (load (Some (Parsed (PObject string_document))), Some (Parsed (PObject string_document))))
       = Some visited
     \<and> save visited (Some (Parsed (PObject string_document)))
       = Some (Parsed (PObject string_document))
     \<and> currentQuestion (load (save visited (Some (Parsed (PObject string_document))))) = 0"
    by (simp add: visit_trace_def visited_def array_document_def string_document_def
        blank_categories_def apply_intent_def questions_of_def or_null_def
        initial_def selectCategory_def selectOption_def nextQuestion_def goToHome_def
        save_document_def load_document_def plain_question_def blank_question_def
        HOME_def QUIZ_def Let_def)
  have d: "selectedOption blank_selected = Some [] \<and> selectedOption blank_selected_single = Some []
     \<and> currentQuestion visited = 1"
    by (simp add: blank_selected_def blank_selected_single_def visited_def)
  have e: "currentQuestion (load (save visited (Some Unparseable))) = 0"
    by simp
  from blank_selected_reachable visited_unsaved a b c d e show ?thesis
    by blast
qed

text \<open>
  Claim C3, amended. Saving a state and loading it gives the state back when the state is
  at rest (no transition in flight), its screen name and selected category are not empty
  strings, its selected option is not the empty string, the session fields hold their
  defaults while no category is selected (the session is stored under the selected
  category only), and the store saved over holds nothing, the empty string, or an object
  whose \<^verbatim>\<open>categories\<close> is absent, \<^verbatim>\<open>null\<close>, falsy or a plain object. In the
  single-category application the conditions on the category and on the store fall away.
\<close>

theorem save_then_load:
  fixes s :: app and q :: quiz
  shows
  "(accepts_save st \<and> \<not> isTransitioning s \<and> screen s \<noteq> [] \<and> selectedCategory s \<noteq> Some []
      \<and> selectedOption s \<noteq> Some []
      \<and> (selectedCategory s = None \<longrightarrow>
           currentQuestion s = 0 \<and> userAnswers s = Map.empty \<and> selectedOption s = None)
    \<longrightarrow> load (save s st) = s)
   \<and> (\<not> isTransitioning q \<and> screen q \<noteq> [] \<and> selectedOption q \<noteq> Some []
    \<longrightarrow> load_single (save_single q) = q)"
proof (intro conjI impI)
  assume "accepts_save st \<and> \<not> isTransitioning s \<and> screen s \<noteq> [] \<and> selectedCategory s \<noteq> Some []
      \<and> selectedOption s \<noteq> Some []
      \<and> (selectedCategory s = None \<longrightarrow>
           currentQuestion s = 0 \<and> userAnswers s = Map.empty \<and> selectedOption s = None)"
  then show "load (save s st) = s"
    by (intro load_save_app) simp_all
next
  assume "\<not> isTransitioning q \<and> screen q \<noteq> [] \<and> selectedOption q \<noteq> Some []"
  then show "load_single (save_single q) = q"
    by (intro load_save_quiz) simp_all
qed

theorem save_then_load_witness:
  "accepts_save (None :: document store)
   \<and> load (save abc_first None) = abc_first
   \<and> load (save initial (Some (Parsed (PObject partial_document)))) = initial
   \<and> load_single (save_single abc_first_single) = abc_first_single"
proof -
  have h1: "\<not> isTransitioning abc_first" "screen abc_first \<noteq> []"
    "selectedCategory abc_first = Some ''PART1''" "selectedOption abc_first = Some ''A''"
    by (simp_all add: abc_first_def QUIZ_def)
  have h2: "\<not> isTransitioning initial" "screen initial \<noteq> []" "selectedCategory initial = None"
    "selectedOption initial = None" "currentQuestion initial = 0" "userAnswers initial = Map.empty"
    by (simp_all add: initial_def HOME_def)
  have h3: "\<not> isTransitioning abc_first_single" "screen abc_first_single \<noteq> []"
    "selectedOption abc_first_single = Some ''A''"
    by (simp_all add: abc_first_single_def QUIZ_def)
  have h4: "accepts_save (None :: document store)"
    "accepts_save (Some (Parsed (PObject partial_document)))"
    by (simp_all add: partial_document_def)
  show ?thesis
    using save_then_load [of None abc_first abc_first_single]
      save_then_load [of "Some (Parsed (PObject partial_document))" initial abc_first_single]
      h1 h2 h3 h4
    by (simp del: save_simps accepts_save.simps)
qed


text \<open>
  Claim C8. Loading never fails: both exceptions of the \<^verbatim>\<open>try\<close> block are caught.
  When nothing is stored, or the stored string is empty or does not parse, or the block
  throws, the state is the initial one: home screen, no category, index 0, no answers, no
  selected option; and no category has a saved session. When the stored document is an
  object, every field is read on its own: an absent screen gives the home screen, an
  absent selected category gives none and leaves the session at its defaults, an absent
  entry for the selected category leaves the session at its defaults, and inside the
  entry an absent index, answer record or selected option gives 0, the empty record or
  none, while each field that is present (and not falsy) is taken as stored. The same
  holds for the flat document of the single-category application.
\<close>

theorem load_falls_back_to_defaults:
  fixes d :: document and fd :: flat_document
  defines "L \<equiv> load (Some (Parsed (PObject d)))"
    and "F \<equiv> load_single (Some (Parsed (PObject fd)))"
  shows
  "load None = initial \<and> load (Some EmptyString) = initial \<and> load (Some Unparseable) = initial
   \<and> (\<forall>e. load_try saved initial = Inl e \<longrightarrow> load (Some saved) = initial)
   \<and> load_single None = initial_single \<and> load_single (Some EmptyString) = initial_single
   \<and> load_single (Some Unparseable) = initial_single
   \<and> (\<forall>e. load_single_try fsaved initial_single = Inl e \<longrightarrow>
         load_single (Some fsaved) = initial_single)
   \<and> screen initial = HOME \<and> selectedCategory initial = None \<and> currentQuestion initial = 0
   \<and> userAnswers initial = Map.empty \<and> selectedOption initial = None
   \<and> getSavedCategoryData key None = None
   \<and> getSavedCategoryData key (Some EmptyString) = None
   \<and> getSavedCategoryData key (Some Unparseable) = None
   \<and> ((chain (doc_currentView d) view_screen = Missing \<longrightarrow> screen L = HOME)
   \<and> (\<forall>v. chain (doc_currentView d) view_screen = Val v \<and> v \<noteq> [] \<longrightarrow> screen L = v)
   \<and> (chain (doc_currentView d) view_selectedCategory = Missing \<longrightarrow>
        selectedCategory L = None \<and> currentQuestion L = 0 \<and> userAnswers L = Map.empty
        \<and> selectedOption L = None)
   \<and> (\<forall>key. chain (doc_currentView d) view_selectedCategory = Val key \<and> key \<noteq> [] \<longrightarrow>
        selectedCategory L = Some key
        \<and> (chain (doc_categories d) (\<lambda>c. entry c key) = Missing \<longrightarrow>
             currentQuestion L = 0 \<and> userAnswers L = Map.empty \<and> selectedOption L = None)
        \<and> (\<forall>cs. chain (doc_categories d) (\<lambda>c. entry c key) = Val cs \<longrightarrow>
             (cat_currentQuestion cs = Missing \<longrightarrow> currentQuestion L = 0)
             \<and> (\<forall>n. cat_currentQuestion cs = Val n \<longrightarrow> currentQuestion L = n)
             \<and> (cat_userAnswers cs = Missing \<longrightarrow> userAnswers L = Map.empty)
             \<and> (\<forall>m. cat_userAnswers cs = Val m \<longrightarrow> userAnswers L = m)
             \<and> (cat_selectedOption cs = Missing \<longrightarrow> selectedOption L = None)
             \<and> (\<forall>v. cat_selectedOption cs = Val v \<and> v \<noteq> [] \<longrightarrow> selectedOption L = Some v))))
   \<and> ((flat_screen fd = Missing \<longrightarrow> screen F = HOME)
   \<and> (\<forall>v. flat_screen fd = Val v \<and> v \<noteq> [] \<longrightarrow> screen F = v)
   \<and> (flat_currentQuestion fd = Missing \<longrightarrow> currentQuestion F = 0)
   \<and> (\<forall>n. flat_currentQuestion fd = Val n \<longrightarrow> currentQuestion F = n)
   \<and> (flat_userAnswers fd = Missing \<longrightarrow> userAnswers F = Map.empty)
   \<and> (\<forall>m. flat_userAnswers fd = Val m \<longrightarrow> userAnswers F = m)
   \<and> (flat_selectedOption fd = Missing \<longrightarrow> selectedOption F = None)
   \<and> (\<forall>v. flat_selectedOption fd = Val v \<and> v \<noteq> [] \<longrightarrow> selectedOption F = Some v))"
proof -
  have caught: "\<forall>e. load_try saved initial = Inl e \<longrightarrow> load (Some saved) = initial"
    using load_try_caught by blast
  have caught_single: "\<forall>e. load_single_try fsaved initial_single = Inl e \<longrightarrow>
         load_single (Some fsaved) = initial_single"
    using load_single_try_caught by blast
  show ?thesis
    unfolding L_def F_def
    by (intro conjI caught caught_single load_partial_document [THEN conjunct1]
        load_partial_document [THEN conjunct2, THEN conjunct1]
        load_partial_document [THEN conjunct2, THEN conjunct2, THEN conjunct1]
        load_partial_document [THEN conjunct2, THEN conjunct2, THEN conjunct2]
        load_partial_flat [THEN conjunct1]
        load_partial_flat [THEN conjunct2, THEN conjunct1]
        load_partial_flat [THEN conjunct2, THEN conjunct2, THEN conjunct1]
        load_partial_flat [THEN conjunct2, THEN conjunct2, THEN conjunct2, THEN conjunct1]
        load_partial_flat [THEN conjunct2, THEN conjunct2, THEN conjunct2, THEN conjunct2, THEN conjunct1]
        load_partial_flat [THEN conjunct2, THEN conjunct2, THEN conjunct2, THEN conjunct2, THEN conjunct2, THEN conjunct1]
        load_partial_flat [THEN conjunct2, THEN conjunct2, THEN conjunct2, THEN conjunct2, THEN conjunct2, THEN conjunct2, THEN conjunct1]
        load_partial_flat [THEN conjunct2, THEN conjunct2, THEN conjunct2, THEN conjunct2, THEN conjunct2, THEN conjunct2, THEN conjunct2])
      simp_all
qed

theorem load_falls_back_to_defaults_witness:
  "load (Some (Parsed PNull)) = initial
   \<and> load_single (Some (Parsed PNull)) = initial_single
   \<and> screen (load (Some (Parsed (PObject partial_document)))) = HOME
   \<and> selectedCategory (load (Some (Parsed (PObject partial_document)))) = Some ''PART1''
   \<and> currentQuestion (load (Some (Parsed (PObject partial_document)))) = 2
   \<and> userAnswers (load (Some (Parsed (PObject partial_document)))) = Map.empty
   \<and> selectedOption (load (Some (Parsed (PObject partial_document)))) = Some ''B''
   \<and> screen (load_single (Some (Parsed (PObject partial_flat)))) = ''quiz''
   \<and> currentQuestion (load_single (Some (Parsed (PObject partial_flat)))) = 2
   \<and> userAnswers (load_single (Some (Parsed (PObject partial_flat)))) = Map.empty
   \<and> selectedOption (load_single (Some (Parsed (PObject partial_flat)))) = None"
proof -
  let ?entry = "\<lparr>cat_currentQuestion = Val 2, cat_userAnswers = Missing,
                  cat_selectedOption = Val ''B''\<rparr>"
  have thrown: "load_try (Parsed PNull) initial = Inl TypeError"
    "load_single_try (Parsed PNull) initial_single = Inl TypeError"
    by (simp_all add: load_try_def load_single_try_def)
  have view: "chain (doc_currentView partial_document) view_screen = Missing"
    "chain (doc_currentView partial_document) view_selectedCategory = Val ''PART1''"
    by (simp_all add: partial_document_def)
  have entry: "chain (doc_categories partial_document) (\<lambda>c. entry c ''PART1'') = Val ?entry"
    by (simp add: partial_document_def)
  have flat: "flat_screen partial_flat = Val ''quiz''" "flat_currentQuestion partial_flat = Val 2"
    "flat_userAnswers partial_flat = Missing" "flat_selectedOption partial_flat = Missing"
    by (simp_all add: partial_flat_def)
  show ?thesis
    using load_falls_back_to_defaults [where d = partial_document and fd = partial_flat
        and saved = "Parsed PNull" and fsaved = "Parsed PNull"]
      thrown view entry flat
    by simp
qed

text \<open>
  Every state that loading can produce satisfies the conditions of the amended claim C3,
  so it is given back exactly by saving and loading again.
\<close>

lemma or_text_nonempty: "d \<noteq> [] \<Longrightarrow> or_text f d \<noteq> []"
  by (cases f) auto

lemma or_null_field_nonempty: "or_null_field f \<noteq> Some []"
  by (cases f) auto

lemma load_document_at_rest:
  "\<not> isTransitioning (load_document d initial)"
  "screen (load_document d initial) \<noteq> []"
  "selectedCategory (load_document d initial) \<noteq> Some []"
  "selectedOption (load_document d initial) \<noteq> Some []"
  "selectedCategory (load_document d initial) = None \<longrightarrow>
     currentQuestion (load_document d initial) = 0
     \<and> userAnswers (load_document d initial) = Map.empty
     \<and> selectedOption (load_document d initial) = None"
proof -
  show "\<not> isTransitioning (load_document d initial)"
    by (simp add: load_document_rest)
  show "screen (load_document d initial) \<noteq> []"
    by (simp add: load_document_screen or_text_nonempty HOME_def)
  show "selectedCategory (load_document d initial) \<noteq> Some []"
    by (simp add: load_document_category or_null_field_nonempty)
  show "selectedOption (load_document d initial) \<noteq> Some []"
    by (simp add: load_document_def Let_def or_null_field_nonempty split: option.splits field.splits)
  show "selectedCategory (load_document d initial) = None \<longrightarrow>
     currentQuestion (load_document d initial) = 0
     \<and> userAnswers (load_document d initial) = Map.empty
     \<and> selectedOption (load_document d initial) = None"
    by (simp add: load_document_category load_document_no_category)
qed

lemma initial_at_rest:
  "\<not> isTransitioning initial" "screen initial \<noteq> []" "selectedCategory initial \<noteq> Some []"
  "selectedOption initial \<noteq> Some []"
  by (simp_all add: HOME_def)

lemma loaded_state_restored:
  assumes "accepts_save st'"
  shows "load (save (load st) st') = load st"
proof -
  have "load st = initial \<or> (\<exists>d. load st = load_document d initial)"
    by (cases st rule: store_cases) auto
  then show ?thesis
  proof
    assume i: "load st = initial"
    show ?thesis
      unfolding i using assms initial_at_rest
      by (intro load_save_app) simp_all
  next
    assume "\<exists>d. load st = load_document d initial"
    then obtain d where d: "load st = load_document d initial" ..
    show ?thesis
      unfolding d using assms load_document_at_rest [of d]
      by (intro load_save_app) simp_all
  qed
qed

lemma loaded_single_state_restored:
  "load_single (save_single (load_single st)) = load_single st"
proof -
  have "\<not> isTransitioning (load_single st) \<and> screen (load_single st) \<noteq> []
      \<and> selectedOption (load_single st) \<noteq> Some []"
    by (cases st rule: store_cases)
      (simp_all add: or_text_nonempty or_null_field_nonempty HOME_def)
  then show ?thesis
    by (intro load_save_quiz) simp_all
qed

lemma or_null_nonempty: "or_null x \<noteq> Some []"
  by (cases x) (simp_all add: or_null_def)

text \<open>
  The conditions of the round trip are kept by every handler, as long as the option
  selected is not the empty string and is selected while a category is (the quiz screen
  has no questions otherwise), and the category selected is not the empty string. So a
  state reached from a loaded one by such intents is restored as well.
\<close>

lemma handle_at_rest:
  assumes "\<not> isTransitioning s" "screen s \<noteq> []" "selectedCategory s \<noteq> Some []"
    "selectedOption s \<noteq> Some []"
    "selectedCategory s = None \<longrightarrow>
       currentQuestion s = 0 \<and> userAnswers s = Map.empty \<and> selectedOption s = None"
    and "i \<noteq> SelectCategory []"
    and "\<And>option. i = SelectOption option \<Longrightarrow> option \<noteq> [] \<and> selectedCategory s \<noteq> None"
  shows "\<not> isTransitioning (handle qs i st s)"
    and "screen (handle qs i st s) \<noteq> []"
    and "selectedCategory (handle qs i st s) \<noteq> Some []"
    and "selectedOption (handle qs i st s) \<noteq> Some []"
    and "selectedCategory (handle qs i st s) = None \<longrightarrow>
       currentQuestion (handle qs i st s) = 0 \<and> userAnswers (handle qs i st s) = Map.empty
       \<and> selectedOption (handle qs i st s) = None"
proof -
  show "\<not> isTransitioning (handle qs i st s)"
    using assms(1)
    by (cases i) (simp_all add: selectCategory_def selectOption_def nextQuestion_def
        prevQuestion_def finishQuiz_def restartQuiz_def goToHome_def Let_def split: option.splits)
  show "screen (handle qs i st s) \<noteq> []"
    using assms(2)
    by (cases i) (simp_all add: selectCategory_def selectOption_def nextQuestion_def
        prevQuestion_def finishQuiz_def restartQuiz_def goToHome_def Let_def HOME_def QUIZ_def
        RESULTS_def split: option.splits)
  show "selectedCategory (handle qs i st s) \<noteq> Some []"
    using assms(3,6)
    by (cases i) (simp_all add: selectCategory_def selectOption_def nextQuestion_def
        prevQuestion_def finishQuiz_def restartQuiz_def goToHome_def Let_def split: option.splits)
  show "selectedOption (handle qs i st s) \<noteq> Some []"
    using assms(4,7)
    by (cases i) (auto simp: selectCategory_def selectOption_def nextQuestion_def
        prevQuestion_def finishQuiz_def restartQuiz_def goToHome_def Let_def
        or_null_nonempty or_null_field_nonempty split: option.splits)
  show "selectedCategory (handle qs i st s) = None \<longrightarrow>
       currentQuestion (handle qs i st s) = 0 \<and> userAnswers (handle qs i st s) = Map.empty
       \<and> selectedOption (handle qs i st s) = None"
    using assms(5,7)
    by (cases i) (auto simp: selectCategory_def selectOption_def nextQuestion_def
        prevQuestion_def finishQuiz_def restartQuiz_def goToHome_def Let_def
        split: option.splits)
qed

lemma handled_state_restored:
  assumes "accepts_save st'"
    and "\<not> isTransitioning s" "screen s \<noteq> []" "selectedCategory s \<noteq> Some []"
    "selectedOption s \<noteq> Some []"
    "selectedCategory s = None \<longrightarrow>
       currentQuestion s = 0 \<and> userAnswers s = Map.empty \<and> selectedOption s = None"
    and "i \<noteq> SelectCategory []"
    and "\<And>option. i = SelectOption option \<Longrightarrow> option \<noteq> [] \<and> selectedCategory s \<noteq> None"
  shows "load (save (handle qs i st s) st') = handle qs i st s"
  using assms(1) handle_at_rest [OF assms(2-8)]
  by (rule load_save_app)

section \<open>Sessions of other categories\<close>

lemma or_null_Some: "or_null x = Some key \<longleftrightarrow> x = Some key \<and> key \<noteq> []"
  by (cases x) (auto simp: or_null_def)

lemma save_keeps_other:
  assumes "selectedCategory s \<noteq> Some A"
  shows "getSavedCategoryData A (save s st) = getSavedCategoryData A st"
proof -
  have o: "or_null (selectedCategory s) \<noteq> Some A"
    using assms by (simp add: or_null_Some)
  have fresh: "chain (doc_categories fresh_document) (\<lambda>c. entry c A) = Missing"
    by (simp add: fresh_document_def)
  show ?thesis
  proof (cases st rule: store_cases)
    case 1
    obtain written where w: "save_document s fresh_document = Inr written"
      by (rule save_fresh_document)
    show ?thesis
      by (simp add: 1 w save_document_other_entry [OF w o] fresh)
  next
    case 2
    obtain written where w: "save_document s fresh_document = Inr written"
      by (rule save_fresh_document)
    show ?thesis
      by (simp add: 2 w save_document_other_entry [OF w o] fresh)
  next
    case (3 d)
    show ?thesis
    proof (cases rule: save_document_cases [of s d])
      case (1 written)
      then show ?thesis
        by (simp add: 3 save_document_other_entry [OF 1 o])
    next
      case 2
      then show ?thesis by (simp add: 3)
    qed
  qed simp_all
qed

lemma handler_category [simp]:
  fixes s :: app
  shows "selectedCategory (selectOption option s) = selectedCategory s"
    and "selectedCategory (nextQuestion qs s) = selectedCategory s"
    and "selectedCategory (prevQuestion s) = selectedCategory s"
    and "selectedCategory (finishQuiz s) = selectedCategory s"
    and "selectedCategory (restartQuiz s) = selectedCategory s"
    and "selectedCategory (goToHome s) = None"
  by (simp_all add: selectOption_def nextQuestion_def prevQuestion_def finishQuiz_def
      restartQuiz_def goToHome_def Let_def split: option.splits)

lemma handle_category:
  "selectedCategory (handle qs i st s) =
     (case i of SelectCategory key \<Rightarrow> Some key | GoToHome \<Rightarrow> None | _ \<Rightarrow> selectedCategory s)"
  by (cases i) simp_all

lemma apply_intent_keeps_other:
  assumes "apply_intent CATS i (s, st) = Some (s', st')"
    and "i \<noteq> SelectCategory A" "selectedCategory s \<noteq> Some A"
  shows "getSavedCategoryData A st' = getSavedCategoryData A st \<and> selectedCategory s' \<noteq> Some A"
proof -
  from assms(1) obtain qs where
    s': "s' = handle qs i st s" and st': "st' = save s' st"
    by (auto simp: apply_intent_def Let_def split: option.splits)
  have c: "selectedCategory s' \<noteq> Some A"
    using assms(2,3) by (cases i) (simp_all add: s')
  then show ?thesis
    by (simp add: st' save_keeps_other)
qed

lemma run_keeps_other:
  assumes "run CATS is (s, st) = Some (s', st')"
    and "SelectCategory A \<notin> set is" "selectedCategory s \<noteq> Some A"
  shows "getSavedCategoryData A st' = getSavedCategoryData A st \<and> selectedCategory s' \<noteq> Some A"
  using assms
proof (induction "is" arbitrary: s st)
  case Nil
  then show ?case by simp
next
  case (Cons i "is")
  from Cons.prems(1) obtain s1 st1 where
    step: "apply_intent CATS i (s, st) = Some (s1, st1)" and rest: "run CATS is (s1, st1) = Some (s', st')"
    by (auto split: option.splits)
  from Cons.prems(2) have ne: "i \<noteq> SelectCategory A" and tl: "SelectCategory A \<notin> set is"
    by auto
  from apply_intent_keeps_other [OF step ne Cons.prems(3)]
  have k1: "getSavedCategoryData A st1 = getSavedCategoryData A st"
    and c1: "selectedCategory s1 \<noteq> Some A"
    by simp_all
  from Cons.IH [OF rest tl c1] k1 show ?case by simp
qed

text \<open>The run does not stop while every selected key is a key of the table.\<close>

lemma run_defined:
  assumes "questions_of CATS s \<noteq> None"
    and "list_all (offered CATS) is"
  shows "\<exists>c. run CATS is (s, st) = Some c"
  using assms
proof (induction "is" arbitrary: s st)
  case Nil
  then show ?case by simp
next
  case (Cons i "is")
  from Cons.prems(1) obtain qs where qs: "questions_of CATS s = Some qs" by auto
  let ?s1 = "handle qs i st s"
  have step: "apply_intent CATS i (s, st) = Some (?s1, save ?s1 st)"
    by (simp add: apply_intent_def qs Let_def)
  have "questions_of CATS ?s1 \<noteq> None"
    using Cons.prems qs
    by (cases i) (auto simp: questions_of_def or_null_def split: option.splits)
  moreover have "list_all (offered CATS) is"
    using Cons.prems(2) by simp
  ultimately obtain c where "run CATS is (?s1, save ?s1 st) = Some c"
    using Cons.IH by blast
  then show ?case
    by (simp add: step)
qed

lemma saved_entry:
  assumes "accepts_save st" "selectedCategory s = Some A" "A \<noteq> []"
  shows "getSavedCategoryData A (save s st) =
    Some \<lparr>cat_currentQuestion = Val (currentQuestion s), cat_userAnswers = Val (userAnswers s),
          cat_selectedOption = nullable (selectedOption s)\<rparr>"
proof -
  obtain d written where d: "save s st = Some (Parsed (PObject written))"
    and w: "save_document s d = Inr written" and t: "takes_entry (doc_categories d)"
    using assms(1) by (rule accepts_save_cases)
  have k: "or_null (selectedCategory s) = Some A"
    using assms(2,3) by (simp add: or_null_def)
  show ?thesis
    by (simp add: d save_document_entry [OF w t k])
qed




text \<open>
  Claim C9, as stated, fails in two ways. With the empty option selected in PART2, a
  detour through PART1 and back restores PART2 without a selected option
  (\<^verbatim>\<open>savedCategoryState.selectedOption || null\<close>). And when the stored string does
  not parse, or the stored object has an array or a non-empty string for
  \<^verbatim>\<open>categories\<close>, no session is ever saved: after answering question 0 of PART1
  (index 1 reached), a detour through PART2 and back starts PART1 at index 0 again.
\<close>

theorem category_restored_counterexample:
  "map_option (selectedOption \<circ> fst) (run blank_categories blank_selected_trace (initial, None))
     = Some (Some [])
   \<and> map_option (selectedOption \<circ> fst) (run blank_categories blank_detour_trace (initial, None))
     = Some None
   \<and> map_option (currentQuestion \<circ> fst)
        (run blank_categories visit_trace (load (Some Unparseable), Some Unparseable)) = Some 1
   \<and> map_option (currentQuestion \<circ> fst)
        (run blank_categories (visit_trace @ detour_trace @ [SelectCategory ''PART1''])
           (load (Some Unparseable), Some Unparseable)) = Some 0
   \<and> map_option (currentQuestion \<circ> fst)
        (run blank_categories visit_trace
           (load (Some (Parsed (PObject array_document))), Some (Parsed (PObject array_document))))
     = Some 1
   \<and> map_option (currentQuestion \<circ> fst)
        (run blank_categories (visit_trace @ detour_trace @ [SelectCategory ''PART1''])
           (load (Some (Parsed (PObject array_document))), Some (Parsed (PObject array_document))))
     = Some 0
   \<and> map_option (currentQuestion \<circ> fst)
        (run blank_categories visit_trace
           (load (Some (Parsed (PObject string_document))), Some (Parsed (PObject string_document))))
     = Some 1
   \<and> map_option (currentQuestion \<circ> fst)
        (run blank_categories (visit_trace @ detour_trace @ [SelectCategory ''PART1''])
           (load (Some (Parsed (PObject string_document))), Some (Parsed (PObject string_document))))
     = Some 0"
  by (simp add: blank_selected_trace_def blank_detour_trace_def visit_trace_def detour_trace_def
      elsewhere_trace_def blank_categories_def apply_intent_def questions_of_def or_null_def
      initial_def selectCategory_def selectOption_def nextQuestion_def goToHome_def
      save_document_def load_document_def fresh_document_def array_document_def
      string_document_def plain_question_def blank_question_def
      HOME_def QUIZ_def Let_def)

text \<open>
  Claim C9, amended. Let a category \<open>A\<close> of the table be selected and the state saved
  over a store that holds nothing, the empty string, or an object whose
  \<^verbatim>\<open>categories\<close> is absent, \<^verbatim>\<open>null\<close>, falsy or a plain object. After going home and
  any intents that do not select \<open>A\<close> again (selecting other categories of the table,
  answering, navigating, finishing, restarting, going home), the saved session of \<open>A\<close>
  is the one that was saved, and selecting \<open>A\<close> restores its index and its answers as
  they were left, and its selected option unless that was the empty string, which is
  restored as absent.
\<close>

theorem other_categories_keep_session:
  assumes "accepts_save st" "selectedCategory s = Some A" "A \<noteq> []" "CATS A \<noteq> None"
    and "SelectCategory A \<notin> set is" "list_all (offered CATS) is"
  shows "\<exists>s' st'. run CATS (GoToHome # is) (s, save s st) = Some (s', st')
      \<and> getSavedCategoryData A st' = getSavedCategoryData A (save s st)
      \<and> selectedCategory (selectCategory A st' s') = Some A
      \<and> screen (selectCategory A st' s') = QUIZ
      \<and> currentQuestion (selectCategory A st' s') = currentQuestion s
      \<and> userAnswers (selectCategory A st' s') = userAnswers s
      \<and> selectedOption (selectCategory A st' s') =
           (if selectedOption s = Some [] then None else selectedOption s)"
proof -
  have q: "questions_of CATS s \<noteq> None"
    using assms(2,3,4) by (auto simp: questions_of_def or_null_def)
  have l: "list_all (offered CATS) (GoToHome # is)"
    using assms(6) by simp
  obtain s' st' where r: "run CATS (GoToHome # is) (s, save s st) = Some (s', st')"
    using run_defined [OF q l, of "save s st"] by auto
  from r obtain qs where
    r': "run CATS is (goToHome s, save (goToHome s) (save s st)) = Some (s', st')"
    by (auto simp: apply_intent_def Let_def split: option.splits)
  have h: "selectedCategory (goToHome s) \<noteq> Some A"
    by simp
  from run_keeps_other [OF r' assms(5) h]
  have "getSavedCategoryData A st' = getSavedCategoryData A (save (goToHome s) (save s st))"
    by simp
  also have "\<dots> = getSavedCategoryData A (save s st)"
    using h by (rule save_keeps_other)
  finally have keep: "getSavedCategoryData A st' = getSavedCategoryData A (save s st)" .
  note e = saved_entry [OF assms(1,2,3)]
  have g: "getSavedCategoryData A st' =
    Some \<lparr>cat_currentQuestion = Val (currentQuestion s), cat_userAnswers = Val (userAnswers s),
          cat_selectedOption = nullable (selectedOption s)\<rparr>"
    using keep e by simp
  have so: "or_null (selectedOption s) = (if selectedOption s = Some [] then None else selectedOption s)"
    by (cases "selectedOption s") (simp_all add: or_null_def)
  show ?thesis
    using r keep so
    by (simp add: selectCategory_session [OF g])
qed

theorem other_categories_keep_session_witness:
  "accepts_save (None :: document store)
   \<and> selectedCategory visited = Some ''PART1''
   \<and> list_all (offered blank_categories) elsewhere_trace
   \<and> (\<exists>s' st'. run blank_categories detour_trace (visited, save visited None) = Some (s', st')
      \<and> getSavedCategoryData ''PART1'' st' = getSavedCategoryData ''PART1'' (save visited None)
      \<and> currentQuestion (selectCategory ''PART1'' st' s') = 1
      \<and> userAnswers (selectCategory ''PART1'' st' s') = [0 \<mapsto> ''A'']
      \<and> selectedOption (selectCategory ''PART1'' st' s') = Some ''B'')"
proof -
  have h1: "accepts_save (None :: document store)" by simp
  have h2: "selectedCategory visited = Some ''PART1''" by (simp add: visited_def)
  have h3: "''PART1'' \<noteq> []" by simp
  have h4: "blank_categories ''PART1'' \<noteq> None" by (simp add: blank_categories_def)
  have h5: "SelectCategory ''PART1'' \<notin> set elsewhere_trace" by (simp add: elsewhere_trace_def)
  have h6: "list_all (offered blank_categories) elsewhere_trace"
    by (simp add: elsewhere_trace_def blank_categories_def)
  have v: "currentQuestion visited = 1" "userAnswers visited = [0 \<mapsto> ''A'']"
    "selectedOption visited = Some ''B''"
    by (simp_all add: visited_def)
  show ?thesis
    using other_categories_keep_session [OF h1 h2 h3 h4 h5 h6] h1 h2 h6 v
    by (simp add: detour_trace_def)
qed

section \<open>Properties of the percentage\<close>

lemma bit_length_pos: "0 < a \<Longrightarrow> bit_length a = Suc (bit_length (a div 2))"
  by (subst bit_length.simps) simp

lemma bit_length_nonpos: "a \<le> 0 \<Longrightarrow> bit_length a = 0"
  by (subst bit_length.simps) simp

lemma bit_length_bounds:
  "0 < a \<Longrightarrow> 2 ^ (bit_length a - 1) \<le> a \<and> a < 2 ^ bit_length a"
proof (induction a rule: bit_length.induct)
  case (1 a)
  show ?case
  proof (cases "a = 1")
    case True
    then show ?thesis
      by (simp add: bit_length_pos bit_length_nonpos)
  next
    case False
    with "1.prems" have h: "0 < a div 2" by simp
    from "1.prems" have na: "\<not> a \<le> 0" by simp
    from "1.IH" [OF na h] have
      lo: "2 ^ (bit_length (a div 2) - 1) \<le> a div 2" and hi: "a div 2 < 2 ^ bit_length (a div 2)"
      by simp_all
    have bl: "bit_length a = Suc (bit_length (a div 2))"
      using "1.prems" by (rule bit_length_pos)
    have pos: "0 < bit_length (a div 2)"
      using h by (simp add: bit_length_pos)
    then have p: "(2::int) ^ bit_length (a div 2) = 2 * 2 ^ (bit_length (a div 2) - 1)"
      by (cases "bit_length (a div 2)") simp_all
    have "2 ^ (bit_length a - 1) \<le> a"
      using lo p bl by simp
    moreover have "a < 2 ^ bit_length a"
      using hi bl by simp
    ultimately show ?thesis by simp
  qed
qed

lemma round_half_even_error: "\<bar>of_int (round_half_even x) - x\<bar> \<le> 1 / 2"
proof -
  have "of_int \<lfloor>x\<rfloor> \<le> x" "x < of_int \<lfloor>x\<rfloor> + 1"
    by linarith+
  then show ?thesis
    by (auto simp: round_half_even_def Let_def)
qed


text \<open>
  \<open>floor_log2\<close> is the binary exponent, so \<open>fl64\<close> keeps 53 significant bits and its
  relative error is at most \<open>2 ^ - 53\<close>.
\<close>

lemma floor_log2_bounds:
  assumes "0 < q"
  shows "2 powi floor_log2 q \<le> q" and "q < 2 powi (floor_log2 q + 1)"
proof -
  obtain a b where ab: "quotient_of q = (a, b)" by (cases "quotient_of q")
  have b: "0 < b" using ab by (rule quotient_of_denom_pos)
  have q: "q = of_int a / of_int b" using ab by (rule quotient_of_div)
  have a: "0 < a"
    using assms b by (simp add: q zero_less_divide_iff)
  define la lb where "la = bit_length a" and "lb = bit_length b"
  define e where "e = int la - int lb"
  have la: "2 ^ (la - 1) \<le> a" "a < 2 ^ la" and lb: "2 ^ (lb - 1) \<le> b" "b < 2 ^ lb"
    using bit_length_bounds [OF a] bit_length_bounds [OF b] by (simp_all add: la_def lb_def)
  have la_pos: "0 < la" and lb_pos: "0 < lb"
    using a b by (simp_all add: la_def lb_def bit_length_pos)
  have ra: "(2::rat) ^ (la - 1) \<le> of_int a" "(of_int a :: rat) < 2 ^ la"
    and rb: "(2::rat) ^ (lb - 1) \<le> of_int b" "(of_int b :: rat) < 2 ^ lb"
    using la lb by (metis of_int_le_iff of_int_less_iff of_int_numeral of_int_power)+
  have rb0: "(0::rat) < of_int b" using b by simp
  have low: "2 powi (e - 1) \<le> q"
  proof -
    have "e - 1 = int (la - 1) - int lb"
      using la_pos by (simp add: e_def of_nat_diff)
    then have "2 powi (e - 1) = (2::rat) powi (int (la - 1) - int lb)"
      by simp
    also have "\<dots> = 2 ^ (la - 1) / 2 ^ lb"
      by (simp add: power_int_diff)
    also have "\<dots> \<le> of_int a / of_int b"
      using ra(1) rb(2) rb0 a by (intro frac_le) simp_all
    finally show ?thesis by (simp add: q)
  qed
  have high: "q < 2 powi (e + 1)"
  proof -
    have "q = of_int a / of_int b" by (rule q)
    also have "\<dots> < 2 ^ la / 2 ^ (lb - 1)"
      using ra(2) rb(1) a by (intro frac_less) simp_all
    also have "\<dots> = (2::rat) powi (int la - int (lb - 1))"
      by (simp add: power_int_diff)
    also have "\<dots> = 2 powi (e + 1)"
    proof -
      have "int la - int (lb - 1) = e + 1"
        using lb_pos by (simp add: e_def of_nat_diff)
      then show ?thesis by simp
    qed
    finally show ?thesis .
  qed
  have fl: "floor_log2 q = (if 2 powi e \<le> q then e else e - 1)"
    by (simp add: floor_log2_def ab e_def la_def lb_def Let_def)
  show "2 powi floor_log2 q \<le> q"
    using low by (simp add: fl)
  show "q < 2 powi (floor_log2 q + 1)"
    using high by (auto simp: fl not_le)
qed

lemma fl64_error:
  assumes "0 < q"
  shows "\<bar>fl64 q - q\<bar> \<le> q / 2 ^ 53"
proof -
  define e where "e = floor_log2 q"
  define u :: rat where "u = 2 powi (e - 52)"
  have u: "0 < u" by (simp add: u_def)
  have f: "fl64 q = of_int (round_half_even (q / u)) * u"
    using assms by (simp add: fl64_def u_def e_def Let_def)
  have "fl64 q - q = (of_int (round_half_even (q / u)) - q / u) * u"
    using u by (simp add: f left_diff_distrib)
  then have "\<bar>fl64 q - q\<bar> = \<bar>of_int (round_half_even (q / u)) - q / u\<bar> * u"
    using u by (simp add: abs_mult)
  also have "\<dots> \<le> 1 / 2 * u"
    using u round_half_even_error [of "q / u"] by (intro mult_right_mono) simp_all
  also have "\<dots> = 2 powi e / 2 ^ 53"
    by (simp add: u_def power_int_diff)
  also have "\<dots> \<le> q / 2 ^ 53"
    using floor_log2_bounds(1) [OF assms] by (simp add: e_def divide_right_mono)
  finally show ?thesis .
qed


text \<open>
  The two roundings move the computed percentage by at most \<open>201 / 2 ^ 53\<close> from the exact
  one, which is less than the distance \<open>1 / (2 * len)\<close> between the exact value and the
  nearest half-integer it is not equal to.
\<close>

lemma percentage_error:
  assumes "0 < n" "s \<le> n"
  shows "\<bar>fl64 (fl64 (of_nat s / of_nat n) * 100) - of_nat s / of_nat n * 100\<bar> \<le> 201 / 2 ^ 53"
proof (cases "s = 0")
  case True
  then show ?thesis by (simp add: fl64_def)
next
  case False
  define p :: rat where "p = 2 ^ 53"
  define q :: rat where "q = of_nat s / of_nat n"
  define y where "y = fl64 q"
  define z where "z = y * 100"
  have p: "100 \<le> p"
    by (simp add: p_def)
  then have p0: "0 < p" by simp
  have q: "0 < q" "q \<le> 1"
    using assms False by (simp_all add: q_def)
  have e1: "\<bar>y - q\<bar> \<le> q / p"
    unfolding y_def p_def using q(1) by (rule fl64_error)
  have qp: "q / p \<le> 1 / p"
    using q(2) p0 by (simp add: divide_right_mono)
  have "q / p < q"
    using q(1) p by (simp add: field_simps)
  with e1 have y: "0 < y" "y \<le> 1 + 1 / p"
    using q(2) qp by linarith+
  have z: "0 < z" "z \<le> 100 + 100 / p"
    using y by (simp_all add: z_def)
  have e2: "\<bar>fl64 z - z\<bar> \<le> z / p"
    unfolding p_def using z(1) by (rule fl64_error)
  have "100 / p \<le> 1"
    using p p0 by (simp add: field_simps)
  with z(2) have "z \<le> 101" by linarith
  then have zp: "z / p \<le> 101 / p"
    using p0 by (simp add: divide_right_mono)
  have "z - q * 100 = (y - q) * 100"
    by (simp add: z_def algebra_simps)
  then have "\<bar>z - q * 100\<bar> = \<bar>(y - q) * 100\<bar>"
    by (rule arg_cong)
  also have "\<dots> = \<bar>y - q\<bar> * 100"
    by (simp only: abs_mult)
  also have "\<dots> \<le> 1 / p * 100"
    using e1 qp by (intro mult_right_mono) linarith+
  finally have e3: "\<bar>z - q * 100\<bar> \<le> 100 / p" by simp
  have "\<bar>fl64 z - q * 100\<bar> \<le> \<bar>fl64 z - z\<bar> + \<bar>z - q * 100\<bar>"
    by linarith
  also have "\<dots> \<le> 101 / p + 100 / p"
    using e2 zp e3 by linarith
  also have "\<dots> = 201 / p"
    by (simp add: add_divide_distrib [symmetric])
  finally show ?thesis
    by (simp add: z_def y_def q_def p_def)
qed

lemma floor_near:
  fixes v :: rat and N D :: int
  assumes "0 < D" "\<bar>v - of_int N / of_int D\<bar> < 1 / of_int D"
  shows "\<lfloor>v\<rfloor> = N div D \<or> (N mod D = 0 \<and> \<lfloor>v\<rfloor> = N div D - 1)"
proof -
  define H r where "H = N div D" and "r = N mod D"
  have r: "0 \<le> r" "r < D"
    using assms(1) by (simp_all add: r_def)
  have "N = D * H + r"
    by (simp add: H_def r_def)
  then have "(of_int N :: rat) = of_int D * of_int H + of_int r"
    by (metis of_int_add of_int_mult)
  then have t: "(of_int N :: rat) / of_int D = of_int H + of_int r / of_int D"
    using assms(1) by (simp add: field_simps)
  have D: "(0::rat) < of_int D" "(1::rat) / of_int D \<le> 1"
    using assms(1) by simp_all
  from assms(2) have v: "of_int H + of_int r / of_int D - 1 / of_int D < v"
    "v < of_int H + of_int r / of_int D + 1 / of_int D"
    unfolding t by linarith+
  show ?thesis
  proof (cases "r = 0")
    case True
    with v have "of_int H - 1 / of_int D < v" "v < of_int H + 1 / of_int D"
      by simp_all
    with D(2) have b: "of_int H - 1 < v" "v < of_int H + 1"
      by linarith+
    have "\<lfloor>v\<rfloor> = H \<or> \<lfloor>v\<rfloor> = H - 1"
    proof (cases "of_int H \<le> v")
      case True
      with b have "\<lfloor>v\<rfloor> = H" by (intro floor_unique) simp_all
      then show ?thesis by simp
    next
      case False
      with b have "\<lfloor>v\<rfloor> = H - 1" by (intro floor_unique) simp_all
      then show ?thesis by simp
    qed
    with True show ?thesis by (auto simp: H_def r_def)
  next
    case False
    with r have r1: "1 \<le> r" "r \<le> D - 1" by simp_all
    have lo: "(1::rat) / of_int D \<le> of_int r / of_int D"
      using r1(1) D(1) by (simp add: divide_right_mono)
    have "(of_int r :: rat) \<le> of_int D - 1"
      using r1(2) by (metis of_int_1 of_int_diff of_int_le_iff)
    then have "(of_int r :: rat) / of_int D \<le> (of_int D - 1) / of_int D"
      using D(1) by (simp add: divide_right_mono)
    also have "\<dots> = 1 - 1 / of_int D"
      using D(1) by (simp add: field_simps)
    finally have hi: "(of_int r :: rat) / of_int D \<le> 1 - 1 / of_int D" .
    from v lo hi have "of_int H \<le> v" "v < of_int H + 1"
      by linarith+
    then have "\<lfloor>v\<rfloor> = H" by (intro floor_unique) simp_all
    then show ?thesis by (simp add: H_def)
  qed
qed

lemma half_up_percentage_div:
  assumes "0 < n"
  shows "half_up_percentage s n = (200 * int s + int n) div (2 * int n)"
proof -
  have "(of_nat s / of_nat n * 100 :: rat) + 1 / 2 = of_int (200 * int s + int n) / of_int (2 * int n)"
    using assms by (simp add: field_simps)
  then show ?thesis
    unfolding half_up_percentage_def by (simp only: floor_divide_of_int_eq)
qed

lemma halfway_mod:
  "halfway s n \<longleftrightarrow> (200 * int s + int n) mod (2 * int n) = 0"
proof -
  have "int ((200 * s + n) mod (2 * n)) = (200 * int s + int n) mod (2 * int n)"
    by (simp add: zmod_int)
  then show ?thesis
    unfolding halfway_def by (metis of_nat_eq_0_iff)
qed

lemma percentage_of_half_up:
  assumes "0 < n" "s \<le> n" "n < 2 ^ 44"
  shows "percentage_of s n = Num (half_up_percentage s n)
     \<or> (halfway s n \<and> percentage_of s n = Num (half_up_percentage s n - 1))"
proof -
  define w where "w = fl64 (fl64 (of_nat s / of_nat n) * 100)"
  define N D where "N = 200 * int s + int n" and "D = 2 * int n"
  have D: "0 < D" using assms(1) by (simp add: D_def)
  have t: "(of_int N :: rat) / of_int D = of_nat s / of_nat n * 100 + 1 / 2"
    using assms(1) by (simp add: N_def D_def field_simps)
  have "D * 201 < 2 ^ 53"
    using assms(3) by (simp add: D_def)
  then have "(of_int D :: rat) * 201 < 2 ^ 53"
    by (metis of_int_less_iff of_int_mult of_int_numeral of_int_power)
  then have small: "(201 :: rat) / 2 ^ 53 < 1 / of_int D"
    using D by (simp add: field_simps)
  have "\<bar>(w + 1 / 2) - of_int N / of_int D\<bar> = \<bar>w - of_nat s / of_nat n * 100\<bar>"
    unfolding t by simp
  also have "\<dots> \<le> 201 / 2 ^ 53"
    unfolding w_def using assms(1,2) by (rule percentage_error)
  finally have "\<bar>(w + 1 / 2) - of_int N / of_int D\<bar> < 1 / of_int D"
    using small by linarith
  from floor_near [OF D this]
  have "Math_round w = N div D \<or> (N mod D = 0 \<and> Math_round w = N div D - 1)"
    by (simp add: Math_round_def)
  moreover have "percentage_of s n = Num (Math_round w)"
    using assms(1) by (simp add: percentage_of_def w_def)
  moreover have "half_up_percentage s n = N div D"
    using assms(1) by (simp add: half_up_percentage_div N_def D_def)
  moreover have "halfway s n \<longleftrightarrow> N mod D = 0"
    by (simp add: halfway_mod N_def D_def)
  ultimately show ?thesis by auto
qed

lemma forty_score: "calculateScore forty_questions twenty_three_right = 23"
  by (simp add: calculateScore_def forty_questions_def twenty_three_right_def abc_question_def
      eval_nat_numeral)


text \<open>
  For fewer than \<open>2 ^ 44\<close> questions the computed percentage is the half-up rounding of
  the exact percentage, except possibly where the exact percentage lies halfway between
  two integers: there it is that rounding or one less.
\<close>

lemma percentage_half_up_except_ties:
  assumes "questions \<noteq> []" "length questions < 2 ^ 44"
  shows "getPercentage questions ua =
           Num (half_up_percentage (calculateScore questions ua) (length questions))
     \<or> (halfway (calculateScore questions ua) (length questions)
        \<and> getPercentage questions ua =
           Num (half_up_percentage (calculateScore questions ua) (length questions) - 1))"
  unfolding getPercentage_def
  using assms by (intro percentage_of_half_up calculateScore_le) simp_all

lemma percentage_single_half_up_except_ties:
  assumes "questions \<noteq> []" "length questions < 2 ^ 44"
  shows "getPercentage_single questions ua =
           Num (half_up_percentage (calculateScore_single questions ua) (length questions))
     \<or> (halfway (calculateScore_single questions ua) (length questions)
        \<and> getPercentage_single questions ua =
           Num (half_up_percentage (calculateScore_single questions ua) (length questions) - 1))"
  unfolding getPercentage_single_def
  using assms by (intro percentage_of_half_up calculateScore_single_le) simp_all

lemma forty_score_single: "calculateScore_single forty_questions twenty_three_right = 23"
  by (simp add: calculateScore_single_def forty_questions_def twenty_three_right_def
      abc_question_def eval_nat_numeral)

text \<open>
  Claim C6 asks for the half-up rounding of \<open>score / length * 100\<close>. With 23 correct
  answers out of 40 questions the exact percentage is 57.5, which rounds half-up to 58;
  the binary64 quotient \<open>23 / 40\<close> is slightly below 0.575, its product with 100 is
  \<open>57.49999999999999\<close>, and \<^verbatim>\<open>Math.round\<close> returns 57, in both applications.
\<close>

theorem percentage_tie_rounds_down:
  "length forty_questions = 40
   \<and> calculateScore forty_questions twenty_three_right = 23
   \<and> half_up_percentage 23 40 = 58
   \<and> getPercentage forty_questions twenty_three_right = Num 57
   \<and> getPercentage_single forty_questions twenty_three_right = Num 57"
proof -
  have l: "length forty_questions = 40" by (simp add: forty_questions_def)
  have h: "half_up_percentage 23 40 = 58" by (simp add: half_up_percentage_div)
  have p: "percentage_of 23 40 = Num 57" by code_simp
  show ?thesis
    by (simp add: getPercentage_def getPercentage_single_def forty_score forty_score_single l h p)
qed

lemma abc_percentage_by_rounding:
  "getPercentage abc_questions axc_answers = Num 67"
proof -
  have s: "calculateScore abc_questions axc_answers = 2"
    by (simp add: calculateScore_def abc_questions_def abc_question_def axc_answers_def)
  have l: "length abc_questions = 3" "abc_questions \<noteq> []" "length abc_questions < 2 ^ 44"
    by (simp_all add: abc_questions_def)
  have h: "half_up_percentage 2 3 = 67" by (simp add: half_up_percentage_div)
  have n: "\<not> halfway 2 3" by (simp add: halfway_def)
  show ?thesis
    using percentage_half_up_except_ties [OF l(2,3), of axc_answers] s l(1) h n by simp
qed

end
